theory Spec2Isabelle
  imports Complex_Main
begin

section \<open>The training driver of Group-Free-3D (train\_dist.py)\<close>

text \<open>
  The development embeds the control logic of \<^verbatim>\<open>train_dist.py\<close>: the early-stopping
  object, checkpoint saving and loading, the per-epoch training and evaluation functions
  and the epoch loop of \<^verbatim>\<open>main\<close>. The detector network, the loss, the optimizer, the
  learning-rate scheduler, the data loaders and the AP calculator are external
  collaborators; they appear as opaque states and as functions of an environment record.
  Logging is not part of the model.
\<close>

subsection \<open>Floating-point values\<close>

text \<open>
  Losses, \<^verbatim>\<open>delta\<close> and \<^verbatim>\<open>clip_norm\<close> are Python floats. The model keeps the special
  values a comparison can meet (both infinities and not-a-number) and treats finite values
  as exact reals: rounding and overflow of finite arithmetic are outside the model.
\<close>

datatype pyfloat = Num real | PInf | NInf | NaN

fun fneg :: "pyfloat \<Rightarrow> pyfloat" where
  "fneg (Num x) = Num (- x)"
| "fneg PInf = NInf"
| "fneg NInf = PInf"
| "fneg NaN = NaN"

fun fadd :: "pyfloat \<Rightarrow> pyfloat \<Rightarrow> pyfloat" where
  "fadd (Num x) (Num y) = Num (x + y)"
| "fadd NaN _ = NaN"
| "fadd _ NaN = NaN"
| "fadd PInf NInf = NaN"
| "fadd NInf PInf = NaN"
| "fadd PInf _ = PInf"
| "fadd _ PInf = PInf"
| "fadd NInf _ = NInf"
| "fadd _ NInf = NInf"

text \<open>\<^verbatim>\<open>a < b\<close> on floats: false as soon as one side is not-a-number.\<close>

fun flt :: "pyfloat \<Rightarrow> pyfloat \<Rightarrow> bool" where
  "flt (Num x) (Num y) = (x < y)"
| "flt NaN _ = False"
| "flt _ NaN = False"
| "flt _ NInf = False"
| "flt PInf _ = False"
| "flt NInf _ = True"
| "flt _ PInf = True"

text \<open>\<^verbatim>\<open>a <= b\<close> and \<^verbatim>\<open>a >= b\<close> on floats.\<close>

fun fle :: "pyfloat \<Rightarrow> pyfloat \<Rightarrow> bool" where
  "fle (Num x) (Num y) = (x \<le> y)"
| "fle NaN _ = False"
| "fle _ NaN = False"
| "fle NInf _ = True"
| "fle _ PInf = True"
| "fle _ NInf = False"
| "fle PInf _ = False"

definition fge :: "pyfloat \<Rightarrow> pyfloat \<Rightarrow> bool" where
  "fge a b = fle b a"

text \<open>Division of a float by a positive count, as \<^verbatim>\<open>np.average\<close> needs it.\<close>

fun fdiv_count :: "pyfloat \<Rightarrow> nat \<Rightarrow> pyfloat" where
  "fdiv_count (Num x) n = Num (x / real n)"
| "fdiv_count PInf n = PInf"
| "fdiv_count NInf n = NInf"
| "fdiv_count NaN n = NaN"

subsection \<open>Strings: decimal rendering and path joining\<close>

definition digit :: "nat \<Rightarrow> char" where
  "digit d = ''0123456789'' ! d"

fun str_nat :: "nat \<Rightarrow> string" where
  "str_nat n = (if n < 10 then [digit n] else str_nat (n div 10) @ [digit (n mod 10)])"

declare str_nat.simps [simp del]

text \<open>\<^verbatim>\<open>f'{i}'\<close> for a Python int.\<close>

definition str_int :: "int \<Rightarrow> string" where
  "str_int i = (if i < 0 then ''-'' @ str_nat (nat (- i)) else str_nat (nat i))"

text \<open>\<^verbatim>\<open>os.path.join(a, b)\<close> on a POSIX system.\<close>

definition os_path_join :: "string \<Rightarrow> string \<Rightarrow> string" where
  "os_path_join a b =
     (if b \<noteq> [] \<and> hd b = CHR ''/'' then b
      else if a = [] \<or> last a = CHR ''/'' then a @ b
      else a @ ''/'' @ b)"

subsection \<open>Errors and outcomes\<close>

datatype error =
    NameError
  | ZeroDivisionError
  | TypeError
  | AttributeError
  | AssertionError
  | NotImplementedError
  | FileNotFoundError
  | UnpicklingError

text \<open>
  A call either returns a result or raises; in both cases it leaves a state behind, so the
  effects that happened before an exception stay visible.
\<close>

datatype ('r, 's) outcome = Returns 'r 's | Raises error 's

fun state_of :: "('r, 's) outcome \<Rightarrow> 's" where
  "state_of (Returns r s) = s"
| "state_of (Raises err s) = s"

fun returns :: "('r, 's) outcome \<Rightarrow> bool" where
  "returns (Returns r s) = True"
| "returns (Raises err s) = False"

subsection \<open>Configuration, network state, checkpoints and the disk\<close>

text \<open>The fields of the parsed options that the modelled functions read.\<close>

record args =
  start_epoch :: int
  max_epoch :: int
  save_freq :: int
  val_freq :: int
  train_eval_freq :: int
  print_freq :: int
  log_dir :: string
  checkpoint_path :: "string option"
  clip_norm :: pyfloat
  num_decoder_layers :: int
  optimizer :: string
  ap_iou_thresholds :: "pyfloat list"

text \<open>
  The state dicts of the model, the optimizer and the scheduler are opaque:
  \<^verbatim>\<open>state_dict()\<close> reads the component and \<^verbatim>\<open>load_state_dict\<close> replaces it.
\<close>

record ('m, 'o, 's) trainer =
  model_sd :: 'm
  optimizer_sd :: 'o
  scheduler_sd :: 's

text \<open>
  The \<^verbatim>\<open>epoch\<close> argument of \<^verbatim>\<open>save_checkpoint\<close> is an int inside the epoch loop and
  the string \<^verbatim>\<open>'last'\<close> after it.
\<close>

datatype epoch_tag = EpochNum int | EpochName string

fun epoch_str :: "epoch_tag \<Rightarrow> string" where
  "epoch_str (EpochNum e) = str_int e"
| "epoch_str (EpochName s) = s"

record ('m, 'o, 's) checkpoint =
  ck_config :: args
  ck_save_path :: string
  ck_model :: 'm
  ck_optimizer :: 'o
  ck_scheduler :: 's
  ck_epoch :: epoch_tag

text \<open>A file is a checkpoint written by \<^verbatim>\<open>torch.save\<close> or a pickled metrics dict.\<close>

datatype ('m, 'o, 's) disk_file = CheckpointFile "('m, 'o, 's) checkpoint" | PickleFile

type_synonym ('m, 'o, 's) fs = "string \<rightharpoonup> ('m, 'o, 's) disk_file"

definition ckpt_path :: "args \<Rightarrow> epoch_tag \<Rightarrow> string" where
  "ckpt_path a epoch = os_path_join (log_dir a) (''ckpt_epoch_'' @ epoch_str epoch @ ''.pth'')"

definition ckpt_state :: "args \<Rightarrow> epoch_tag \<Rightarrow> ('m, 'o, 's) trainer \<Rightarrow> ('m, 'o, 's) checkpoint" where
  "ckpt_state a epoch t =
     \<lparr>ck_config = a, ck_save_path = ckpt_path a epoch, ck_model = model_sd t,
      ck_optimizer = optimizer_sd t, ck_scheduler = scheduler_sd t, ck_epoch = epoch\<rparr>"

text \<open>
  \<^verbatim>\<open>save_checkpoint(args, epoch, model, optimizer, scheduler, save_cur)\<close>. The test
  \<^verbatim>\<open>save_cur or not (epoch % args.save_freq)\<close> evaluates the remainder only when
  \<^verbatim>\<open>save_cur\<close> is false; the remainder raises on a zero divisor and on a string.
\<close>

definition save_checkpoint ::
  "args \<Rightarrow> epoch_tag \<Rightarrow> ('m, 'o, 's) trainer \<Rightarrow> bool \<Rightarrow> ('m, 'o, 's) fs
     \<Rightarrow> (unit, ('m, 'o, 's) fs) outcome" where
  "save_checkpoint a epoch t save_cur d =
     (if save_cur then Returns () (d(ckpt_path a epoch \<mapsto> CheckpointFile (ckpt_state a epoch t)))
      else case epoch of
        EpochName s \<Rightarrow> Raises TypeError d
      | EpochNum e \<Rightarrow>
          if save_freq a = 0 then Raises ZeroDivisionError d
          else if e mod save_freq a = 0
            then Returns () (d(ckpt_path a epoch \<mapsto> CheckpointFile (ckpt_state a epoch t)))
          else Returns () d)"

text \<open>
  \<^verbatim>\<open>load_checkpoint(args, model, optimizer, scheduler)\<close>: the state is the options and the
  three components. \<^verbatim>\<open>torch.load\<close> raises when \<^verbatim>\<open>args.checkpoint_path\<close> is \<^verbatim>\<open>None\<close>,
  names no file, or names a file that is not a checkpoint. \<^verbatim>\<open>checkpoint['epoch'] + 1\<close>
  raises on a string epoch, before anything is restored.
\<close>

definition load_checkpoint ::
  "('m, 'o, 's) fs \<Rightarrow> args \<times> ('m, 'o, 's) trainer
     \<Rightarrow> (unit, args \<times> ('m, 'o, 's) trainer) outcome" where
  "load_checkpoint d st =
     (case st of (a, t) \<Rightarrow>
        case checkpoint_path a of
          None \<Rightarrow> Raises AttributeError (a, t)
        | Some p \<Rightarrow>
            (case d p of
               None \<Rightarrow> Raises FileNotFoundError (a, t)
             | Some PickleFile \<Rightarrow> Raises UnpicklingError (a, t)
             | Some (CheckpointFile c) \<Rightarrow>
                 (case ck_epoch c of
                    EpochName s \<Rightarrow> Raises TypeError (a, t)
                  | EpochNum e \<Rightarrow>
                      Returns () (a\<lparr>start_epoch := e + 1\<rparr>,
                        t\<lparr>model_sd := ck_model c, optimizer_sd := ck_optimizer c,
                          scheduler_sd := ck_scheduler c\<rparr>))))"

subsection \<open>Early stopping\<close>

record early_stopping =
  patience :: int
  verbose :: bool
  counter :: int
  best_score :: "pyfloat option"
  early_stop :: bool
  val_loss_min :: pyfloat
  delta :: pyfloat
  path :: string

definition EarlyStopping :: "int \<Rightarrow> bool \<Rightarrow> pyfloat \<Rightarrow> string \<Rightarrow> early_stopping" where
  "EarlyStopping p v dl pth =
     \<lparr>patience = p, verbose = v, counter = 0, best_score = None, early_stop = False,
      val_loss_min = PInf, delta = dl, path = pth\<rparr>"

text \<open>
  \<^verbatim>\<open>EarlyStopping.save_checkpoint\<close> reads the global options \<^verbatim>\<open>opt\<close>. The checkpoint is
  written when \<^verbatim>\<open>epoch % opt.save_freq\<close> is non-zero; \<^verbatim>\<open>val_loss_min\<close> is set afterwards.
\<close>

definition es_save_checkpoint ::
  "args \<Rightarrow> pyfloat \<Rightarrow> int \<Rightarrow> ('m, 'o, 's) trainer \<Rightarrow> early_stopping \<times> ('m, 'o, 's) fs
     \<Rightarrow> (unit, early_stopping \<times> ('m, 'o, 's) fs) outcome" where
  "es_save_checkpoint opt val_loss epoch t st =
     (case st of (es, d) \<Rightarrow>
        if save_freq opt = 0 then Raises ZeroDivisionError (es, d)
        else if epoch mod save_freq opt \<noteq> 0 then
          (case save_checkpoint opt (EpochNum epoch) t True d of
             Raises err d' \<Rightarrow> Raises err (es, d')
           | Returns _ d' \<Rightarrow> Returns () (es\<lparr>val_loss_min := val_loss\<rparr>, d'))
        else Returns () (es\<lparr>val_loss_min := val_loss\<rparr>, d))"

text \<open>\<^verbatim>\<open>EarlyStopping.__call__(val_loss, model, args, epoch, optimizer, scheduler)\<close>.\<close>

definition es_call ::
  "args \<Rightarrow> pyfloat \<Rightarrow> int \<Rightarrow> ('m, 'o, 's) trainer \<Rightarrow> early_stopping \<times> ('m, 'o, 's) fs
     \<Rightarrow> (unit, early_stopping \<times> ('m, 'o, 's) fs) outcome" where
  "es_call opt val_loss epoch t st =
     (case st of (es, d) \<Rightarrow>
        let score = fneg val_loss in
        case best_score es of
          None \<Rightarrow> es_save_checkpoint opt val_loss epoch t (es\<lparr>best_score := Some score\<rparr>, d)
        | Some best \<Rightarrow>
            if flt score (fadd best (delta es)) then
              let es1 = es\<lparr>counter := counter es + 1\<rparr> in
              Returns () (if patience es1 \<le> counter es1 then es1\<lparr>early_stop := True\<rparr> else es1, d)
            else
              (case es_save_checkpoint opt val_loss epoch t (es\<lparr>best_score := Some score\<rparr>, d) of
                 Raises err st' \<Rightarrow> Raises err st'
               | Returns _ (es', d') \<Rightarrow> Returns () (es'\<lparr>counter := 0\<rparr>, d')))"

text \<open>A sequence of calls, each with its validation loss and epoch; it stops at the first exception.\<close>

fun es_calls ::
  "args \<Rightarrow> ('m, 'o, 's) trainer \<Rightarrow> (pyfloat \<times> int) list \<Rightarrow> early_stopping \<times> ('m, 'o, 's) fs
     \<Rightarrow> (unit, early_stopping \<times> ('m, 'o, 's) fs) outcome" where
  "es_calls opt t [] st = Returns () st"
| "es_calls opt t ((v, e) # cs) st =
     (case es_call opt v e t st of
        Raises err st' \<Rightarrow> Raises err st'
      | Returns _ st' \<Rightarrow> es_calls opt t cs st')"

subsection \<open>The environment of a run\<close>

text \<open>
  What the driver gets from its collaborators: the rank of the process, the batches each
  loader yields, and the effect of one training step. \<open>batch_step\<close> stands for the forward
  pass, the loss, \<^verbatim>\<open>zero_grad\<close>, \<^verbatim>\<open>backward\<close>, the clipping when it is enabled,
  \<^verbatim>\<open>optimizer.step()\<close> and \<^verbatim>\<open>scheduler.step()\<close>; \<open>clip_grad_norm\<close> is the value that
  \<^verbatim>\<open>clip_grad_norm_\<close> returns; \<open>loss_item\<close> is \<^verbatim>\<open>loss.item()\<close> of a batch in evaluation.
\<close>

record ('b, 'm, 'o, 's) env =
  rank :: int
  train_loader :: "'b list"
  train_eval_loader :: "'b list"
  test_loader :: "'b list"
  batch_step :: "'b \<Rightarrow> ('m, 'o, 's) trainer \<Rightarrow> ('m, 'o, 's) trainer"
  clip_grad_norm :: "'b \<Rightarrow> ('m, 'o, 's) trainer \<Rightarrow> pyfloat"
  loss_item :: "'b \<Rightarrow> ('m, 'o, 's) trainer \<Rightarrow> pyfloat"

subsection \<open>Training one epoch\<close>

text \<open>
  The batch loop of \<^verbatim>\<open>train_one_epoch\<close>. The local variable \<^verbatim>\<open>grad_total_norm\<close> is bound
  (\<open>Some\<close>) only by the branch \<^verbatim>\<open>config.clip_norm > 0\<close>; reading it after the optimizer and
  scheduler steps raises when it is unbound. The statistics gathered from \<^verbatim>\<open>end_points\<close>
  are not modelled.
\<close>

fun train_batches ::
  "('b, 'm, 'o, 's) env \<Rightarrow> args \<Rightarrow> 'b list \<Rightarrow> pyfloat option \<times> ('m, 'o, 's) trainer
     \<Rightarrow> (unit, pyfloat option \<times> ('m, 'o, 's) trainer) outcome" where
  "train_batches ev config [] st = Returns () st"
| "train_batches ev config (b # bs) st =
     (case st of (grad_total_norm, t) \<Rightarrow>
        let g = (if flt (Num 0) (clip_norm config) then Some (clip_grad_norm ev b t)
                 else grad_total_norm);
            t' = batch_step ev b t
        in case g of
             None \<Rightarrow> Raises NameError (g, t')
           | Some n \<Rightarrow> train_batches ev config bs (g, t'))"

text \<open>
  \<^verbatim>\<open>train_one_epoch\<close>: after the batches, \<^verbatim>\<open>epoch % config.val_freq\<close> is evaluated, which
  raises on a zero \<^verbatim>\<open>val_freq\<close>.
\<close>

definition train_one_epoch ::
  "('b, 'm, 'o, 's) env \<Rightarrow> int \<Rightarrow> 'b list \<Rightarrow> args \<Rightarrow> ('m, 'o, 's) trainer
     \<Rightarrow> (unit, ('m, 'o, 's) trainer) outcome" where
  "train_one_epoch ev epoch loader config t =
     (case train_batches ev config loader (None, t) of
        Raises err st \<Rightarrow> Raises err (snd st)
      | Returns _ st \<Rightarrow>
          if val_freq config = 0 then Raises ZeroDivisionError (snd st)
          else Returns () (snd st))"

subsection \<open>Evaluating one epoch\<close>

text \<open>The prefixes of the prediction heads that \<^verbatim>\<open>evaluate_one_epoch\<close> evaluates.\<close>

definition prefixes :: "args \<Rightarrow> string list" where
  "prefixes config =
     (if 0 < num_decoder_layers config
      then [''last_'', ''proposal_'']
             @ map (\<lambda>i. str_int i @ ''head_'') [0..num_decoder_layers config - 2]
      else [''proposal_''])"

text \<open>
  \<^verbatim>\<open>np.average\<close> of a list of floats: not-a-number on the empty list, else the sum divided
  by the length.
\<close>

definition np_average :: "pyfloat list \<Rightarrow> pyfloat" where
  "np_average xs = (if xs = [] then NaN else fdiv_count (foldl fadd (Num 0) xs) (length xs))"

text \<open>
  The batch loop of \<^verbatim>\<open>evaluate_one_epoch\<close>: one loss is appended per batch; then
  \<^verbatim>\<open>(batch_idx + 1) % config.print_freq\<close> is evaluated, which raises on a zero
  \<^verbatim>\<open>print_freq\<close>.
\<close>

fun eval_batches ::
  "('b, 'm, 'o, 's) env \<Rightarrow> args \<Rightarrow> ('m, 'o, 's) trainer \<Rightarrow> 'b list \<Rightarrow> pyfloat list
     \<Rightarrow> (unit, pyfloat list) outcome" where
  "eval_batches ev config t [] valid_losses = Returns () valid_losses"
| "eval_batches ev config t (b # bs) valid_losses =
     (let valid_losses' = valid_losses @ [loss_item ev b t] in
      if print_freq config = 0 then Raises ZeroDivisionError valid_losses'
      else eval_batches ev config t bs valid_losses')"

text \<open>
  \<^verbatim>\<open>plots_dict\<close> is kept as the list of the (prefix, threshold) pairs under which an AP and
  an AR value were appended; the values come from the AP calculator. The function returns
  the pair \<^verbatim>\<open>(plots_dict, valid_loss)\<close>.
\<close>

type_synonym plots = "(string \<times> pyfloat) list"

definition evaluate_one_epoch ::
  "('b, 'm, 'o, 's) env \<Rightarrow> 'b list \<Rightarrow> args \<Rightarrow> ('m, 'o, 's) trainer \<Rightarrow> plots
     \<Rightarrow> (plots \<times> pyfloat, unit) outcome" where
  "evaluate_one_epoch ev loader config t plots_dict =
     (case eval_batches ev config t loader [] of
        Raises err valid_losses \<Rightarrow> Raises err ()
      | Returns _ valid_losses \<Rightarrow>
          Returns (plots_dict @ List.product (prefixes config) (ap_iou_thresholds config),
                   np_average valid_losses) ())"

subsection \<open>The epoch loop of main\<close>

text \<open>
  The calls a run makes, in order: \<^verbatim>\<open>train_one_epoch\<close> with its epoch,
  \<^verbatim>\<open>evaluate_one_epoch\<close> with its loader, the early-stopping object with the validation loss
  and the epoch, and the module-level \<^verbatim>\<open>save_checkpoint\<close> with its epoch and \<^verbatim>\<open>save_cur\<close>.
\<close>

datatype loader_name = TrainEvalLoader | TestLoader

datatype event =
    Train int
  | Evaluate loader_name
  | EarlyStop pyfloat int
  | Save epoch_tag bool

record ('m, 'o, 's) world =
  disk :: "('m, 'o, 's) fs"
  net :: "('m, 'o, 's) trainer"
  stopper :: early_stopping
  val_metrics_dict :: plots
  train_metrics_dict :: plots
  trace :: "event list"

fun trained :: "event list \<Rightarrow> int list" where
  "trained [] = []"
| "trained (Train e # evs) = e # trained evs"
| "trained (_ # evs) = trained evs"

datatype loop_ctl = Continue | Break

text \<open>
  Lines 379 to 385: the evaluation on the training set. The test
  \<^verbatim>\<open>(epoch % args.train_eval_freq == 0) or (epoch == args.val_freq)\<close> evaluates the
  remainder first.
\<close>

definition train_eval_part ::
  "('b, 'm, 'o, 's) env \<Rightarrow> args \<Rightarrow> int \<Rightarrow> ('m, 'o, 's) world \<Rightarrow> (unit, ('m, 'o, 's) world) outcome" where
  "train_eval_part ev a epoch w =
     (if train_eval_freq a = 0 then Raises ZeroDivisionError w
      else if epoch mod train_eval_freq a = 0 \<or> epoch = val_freq a then
        (let w1 = w\<lparr>trace := trace w @ [Evaluate TrainEvalLoader]\<rparr> in
         case evaluate_one_epoch ev (train_eval_loader ev) a (net w1) (train_metrics_dict w1) of
           Raises err _ \<Rightarrow> Raises err w1
         | Returns r _ \<Rightarrow>
             Returns () (w1\<lparr>train_metrics_dict := fst r,
               disk := (disk w1)(os_path_join (log_dir a) ''train_metrics_dict.pkl'' \<mapsto> PickleFile)\<rparr>))
      else Returns () w)"

text \<open>
  Lines 387 to 399: the validation, the call of the early-stopping object with the loss that
  \<^verbatim>\<open>evaluate_one_epoch\<close> returned, and the \<^verbatim>\<open>break\<close>.
\<close>

definition validation_part ::
  "('b, 'm, 'o, 's) env \<Rightarrow> args \<Rightarrow> int \<Rightarrow> ('m, 'o, 's) world \<Rightarrow> (loop_ctl, ('m, 'o, 's) world) outcome" where
  "validation_part ev a epoch w =
     (if val_freq a = 0 then Raises ZeroDivisionError w
      else if epoch mod val_freq a = 0 then
        (let w1 = w\<lparr>trace := trace w @ [Evaluate TestLoader]\<rparr> in
         case evaluate_one_epoch ev (test_loader ev) a (net w1) (val_metrics_dict w1) of
           Raises err _ \<Rightarrow> Raises err w1
         | Returns r _ \<Rightarrow>
             (let valid_loss = snd r;
                  w2 = w1\<lparr>val_metrics_dict := fst r,
                         disk := (disk w1)(os_path_join (log_dir a) ''val_metrics_dict.pkl'' \<mapsto> PickleFile),
                         trace := trace w1 @ [EarlyStop valid_loss epoch]\<rparr>
              in case es_call a valid_loss epoch (net w2) (stopper w2, disk w2) of
                   Raises err st \<Rightarrow> Raises err (w2\<lparr>stopper := fst st, disk := snd st\<rparr>)
                 | Returns _ st \<Rightarrow>
                     if early_stop (fst st)
                     then Returns Break (w2\<lparr>stopper := fst st, disk := snd st\<rparr>)
                     else Returns Continue (w2\<lparr>stopper := fst st, disk := snd st\<rparr>)))
      else Returns Continue w)"

text \<open>
  One iteration of the loop (lines 362 to 401). Every rank trains and pickles the training
  losses; rank 0 alone evaluates, validates and saves.
\<close>

definition epoch_body ::
  "('b, 'm, 'o, 's) env \<Rightarrow> args \<Rightarrow> int \<Rightarrow> ('m, 'o, 's) world \<Rightarrow> (loop_ctl, ('m, 'o, 's) world) outcome" where
  "epoch_body ev a epoch w =
     (let w0 = w\<lparr>trace := trace w @ [Train epoch]\<rparr> in
      case train_one_epoch ev epoch (train_loader ev) a (net w0) of
        Raises err t \<Rightarrow> Raises err (w0\<lparr>net := t\<rparr>)
      | Returns _ t \<Rightarrow>
          (let w1 = w0\<lparr>net := t,
                 disk := (disk w0)(os_path_join (log_dir a) ''train_loss_dict.pkl'' \<mapsto> PickleFile)\<rparr>
           in if rank ev \<noteq> 0 then Returns Continue w1
              else case train_eval_part ev a epoch w1 of
                Raises err w2 \<Rightarrow> Raises err w2
              | Returns _ w2 \<Rightarrow>
                  (case validation_part ev a epoch w2 of
                     Raises err w3 \<Rightarrow> Raises err w3
                   | Returns Break w3 \<Rightarrow> Returns Break w3
                   | Returns Continue w3 \<Rightarrow>
                       (let w4 = w3\<lparr>trace := trace w3 @ [Save (EpochNum epoch) False]\<rparr> in
                        case save_checkpoint a (EpochNum epoch) (net w4) False (disk w4) of
                          Raises err d \<Rightarrow> Raises err (w4\<lparr>disk := d\<rparr>)
                        | Returns _ d \<Rightarrow> Returns Continue (w4\<lparr>disk := d\<rparr>)))))"

text \<open>\<^verbatim>\<open>for epoch in range(args.start_epoch, args.max_epoch + 1)\<close>, over the list of its epochs.\<close>

fun epoch_loop ::
  "('b, 'm, 'o, 's) env \<Rightarrow> args \<Rightarrow> int list \<Rightarrow> ('m, 'o, 's) world \<Rightarrow> (unit, ('m, 'o, 's) world) outcome" where
  "epoch_loop ev a [] w = Returns () w"
| "epoch_loop ev a (epoch # epochs) w =
     (case epoch_body ev a epoch w of
        Raises err w' \<Rightarrow> Raises err w'
      | Returns Break w' \<Rightarrow> Returns () w'
      | Returns Continue w' \<Rightarrow> epoch_loop ev a epochs w')"

text \<open>
  Lines 347 to 349: a truthy \<^verbatim>\<open>args.checkpoint_path\<close> must name a file, which is then
  loaded.
\<close>

definition resume ::
  "('m, 'o, 's) fs \<Rightarrow> args \<times> ('m, 'o, 's) trainer \<Rightarrow> (unit, args \<times> ('m, 'o, 's) trainer) outcome" where
  "resume d st =
     (case checkpoint_path (fst st) of
        None \<Rightarrow> Returns () st
      | Some p \<Rightarrow>
          if p = [] then Returns () st
          else if d p = None then Raises AssertionError st
          else load_checkpoint d st)"

text \<open>
  The work after the loop (lines 403 to 408): a last evaluation on the test loader with a
  fresh metrics dict, and the checkpoint named after the string \<^verbatim>\<open>'last'\<close>.
\<close>

definition finish ::
  "('b, 'm, 'o, 's) env \<Rightarrow> args \<Rightarrow> ('m, 'o, 's) world \<Rightarrow> (string, ('m, 'o, 's) world) outcome" where
  "finish ev a w =
     (let w1 = w\<lparr>trace := trace w @ [Evaluate TestLoader]\<rparr> in
      case evaluate_one_epoch ev (test_loader ev) a (net w1) [] of
        Raises err _ \<Rightarrow> Raises err w1
      | Returns _ _ \<Rightarrow>
          (let w2 = w1\<lparr>trace := trace w1 @ [Save (EpochName ''last'') True]\<rparr> in
           case save_checkpoint a (EpochName ''last'') (net w2) True (disk w2) of
             Raises err d \<Rightarrow> Raises err (w2\<lparr>disk := d\<rparr>)
           | Returns _ d \<Rightarrow>
               Returns (os_path_join (log_dir a) ''ckpt_epoch_last.pth'') (w2\<lparr>disk := d\<rparr>)))"

text \<open>
  \<^verbatim>\<open>main(args)\<close>, from the choice of the optimizer on. The network state \<open>t0\<close> is the one of
  the freshly built model, optimizer and scheduler; \<open>d0\<close> is the disk at the start.
\<close>

definition initial_world :: "('m, 'o, 's) fs \<Rightarrow> ('m, 'o, 's) trainer \<Rightarrow> ('m, 'o, 's) world" where
  "initial_world d t =
     \<lparr>disk = d, net = t, stopper = EarlyStopping 20 True (Num 0) ''checkpoint.pt'',
      val_metrics_dict = [], train_metrics_dict = [], trace = []\<rparr>"

definition main ::
  "('b, 'm, 'o, 's) env \<Rightarrow> args \<Rightarrow> ('m, 'o, 's) trainer \<Rightarrow> ('m, 'o, 's) fs
     \<Rightarrow> (string, args \<times> ('m, 'o, 's) world) outcome" where
  "main ev a0 t0 d0 =
     (if optimizer a0 \<noteq> ''adamW'' then Raises NotImplementedError (a0, initial_world d0 t0)
      else case resume d0 (a0, t0) of
        Raises err st \<Rightarrow> Raises err (fst st, initial_world d0 (snd st))
      | Returns _ st \<Rightarrow>
          (let a = fst st in
           case epoch_loop ev a [start_epoch a..max_epoch a] (initial_world d0 (snd st)) of
             Raises err w \<Rightarrow> Raises err (a, w)
           | Returns _ w \<Rightarrow>
               (case finish ev a w of
                  Raises err w' \<Rightarrow> Raises err (a, w')
                | Returns p w' \<Rightarrow> Returns p (a, w'))))"

subsection \<open>Example values\<close>

text \<open>The defaults of \<^verbatim>\<open>parse_option\<close>, and a network whose three state dicts are numbers.\<close>

definition default_opt :: args where
  "default_opt = \<lparr>start_epoch = 1, max_epoch = 700, save_freq = 10, val_freq = 10,
     train_eval_freq = 40, print_freq = 1, log_dir = ''log'', checkpoint_path = None,
     clip_norm = Num (1 / 10), num_decoder_layers = 8, optimizer = ''adamW'',
     ap_iou_thresholds = [Num (1 / 4), Num (1 / 2)]\<rparr>"

definition trainer0 :: "(nat, nat, nat) trainer" where
  "trainer0 = \<lparr>model_sd = 0, optimizer_sd = 0, scheduler_sd = 0\<rparr>"

definition es_example :: early_stopping where
  "es_example = \<lparr>patience = 2, verbose = True, counter = 0, best_score = Some (Num (- 3)),
     early_stop = False, val_loss_min = Num 3, delta = Num 0, path = ''checkpoint.pt''\<rparr>"

definition disk_example :: "(nat, nat, nat) fs" where
  "disk_example = [ckpt_path default_opt (EpochNum 15) \<mapsto>
     CheckpointFile (ckpt_state default_opt (EpochNum 15) trainer0)]"

text \<open>
  An environment with two training batches, one batch for the evaluation on the training
  set and two test batches; a batch is a number, a training step adds it to the model state,
  and its loss in evaluation is the batch plus the model state.
\<close>

definition env0 :: "(nat, nat, nat, nat) env" where
  "env0 = \<lparr>rank = 0, train_loader = [1, 2], train_eval_loader = [3], test_loader = [4, 5],
     batch_step = (\<lambda>b t. t\<lparr>model_sd := model_sd t + b, optimizer_sd := optimizer_sd t + 1,
                              scheduler_sd := scheduler_sd t + 1\<rparr>),
     clip_grad_norm = (\<lambda>b t. Num (real b)),
     loss_item = (\<lambda>b t. Num (real b + real (model_sd t)))\<rparr>"

text \<open>The number a string of decimal digits stands for: the inverse of \<open>str_nat\<close>.\<close>

fun digits_value :: "string \<Rightarrow> nat" where
  "digits_value [] = 0"
| "digits_value (c # cs) = (of_char c - 48) * 10 ^ length cs + digits_value cs"

text \<open>A network state to be saved, distinct from the fresh one.\<close>

definition trainer_example :: "(nat, nat, nat) trainer" where
  "trainer_example = \<lparr>model_sd = 5, optimizer_sd = 6, scheduler_sd = 7\<rparr>"

text \<open>
  Options under which every epoch validates. In the example environment the validation loss
  rises with every epoch, so the run stops early; \<open>rising\<close> describes the world between
  two epochs of that run, with the counter of the early-stopping object.
\<close>

definition opt_stop :: args where
  "opt_stop = default_opt\<lparr>max_epoch := 30, val_freq := 1\<rparr>"

definition rising :: "int \<Rightarrow> (nat, nat, nat) world \<Rightarrow> bool" where
  "rising c w = (3 \<le> model_sd (net w) \<and> best_score (stopper w) = Some (Num (- (15 / 2)))
     \<and> delta (stopper w) = Num 0 \<and> patience (stopper w) = 20 \<and> \<not> early_stop (stopper w)
     \<and> counter (stopper w) = c)"

text \<open>
  \<^verbatim>\<open>epoch\<close> is a multiple of \<^verbatim>\<open>save_freq\<close>: the remainder \<^verbatim>\<open>epoch % save_freq\<close> exists
  (the divisor is not zero, the epoch is a number) and is zero.
\<close>

definition multiple_of :: "epoch_tag \<Rightarrow> int \<Rightarrow> bool" where
  "multiple_of epoch k = (case epoch of EpochNum e \<Rightarrow> k \<noteq> 0 \<and> e mod k = 0 | EpochName s \<Rightarrow> False)"

section \<open>Properties\<close>

subsection \<open>Saving a checkpoint\<close>

text \<open>
  Claim C5. \<^verbatim>\<open>save_checkpoint\<close> writes the state to \<^verbatim>\<open>ckpt_epoch_{epoch}.pth\<close> under
  \<^verbatim>\<open>args.log_dir\<close> if and only if \<^verbatim>\<open>save_cur\<close> is true or the epoch is a multiple of
  \<^verbatim>\<open>args.save_freq\<close>; in every other case the disk after the call is the disk before it.
  This covers the calls that raise: with \<^verbatim>\<open>save_cur\<close> false, a zero \<^verbatim>\<open>save_freq\<close> or a
  string epoch raises before anything is written.
\<close>

theorem save_checkpoint_writes_iff:
  "state_of (save_checkpoint a epoch t save_cur d) =
     (if save_cur \<or> multiple_of epoch (save_freq a)
      then d(os_path_join (log_dir a) (''ckpt_epoch_'' @ epoch_str epoch @ ''.pth'')
               \<mapsto> CheckpointFile (ckpt_state a epoch t))
      else d)"
  by (cases epoch) (simp_all add: save_checkpoint_def multiple_of_def ckpt_path_def)

subsection \<open>Early stopping\<close>

lemma fge_not_flt: "fge a b \<Longrightarrow> \<not> flt a b"
  by (cases a; cases b) (simp_all add: fge_def)

lemma es_save_checkpoint_ok:
  "save_freq opt \<noteq> 0 \<Longrightarrow>
   es_save_checkpoint opt v e t (es, d) = Returns () (es\<lparr>val_loss_min := v\<rparr>, (if e mod save_freq opt \<noteq> 0
        then d(ckpt_path opt (EpochNum e) \<mapsto> CheckpointFile (ckpt_state opt (EpochNum e) t))
        else d))"
  by (simp add: es_save_checkpoint_def save_checkpoint_def)

lemma es_call_first:
  "save_freq opt \<noteq> 0 \<Longrightarrow> best_score es = None \<Longrightarrow>
   es_call opt v e t (es, d) =
     Returns () (es\<lparr>best_score := Some (fneg v), val_loss_min := v\<rparr>, (if e mod save_freq opt \<noteq> 0
        then d(ckpt_path opt (EpochNum e) \<mapsto> CheckpointFile (ckpt_state opt (EpochNum e) t))
        else d))"
  by (simp add: es_call_def es_save_checkpoint_ok)

lemma es_call_worse:
  "best_score es = Some b \<Longrightarrow> flt (fneg v) (fadd b (delta es)) \<Longrightarrow>
   es_call opt v e t (es, d) =
     Returns () (es\<lparr>counter := counter es + 1,
                    early_stop := (early_stop es \<or> patience es \<le> counter es + 1)\<rparr>, d)"
  by (simp add: es_call_def Let_def)

lemma es_call_better:
  "save_freq opt \<noteq> 0 \<Longrightarrow> best_score es = Some b \<Longrightarrow> \<not> flt (fneg v) (fadd b (delta es)) \<Longrightarrow>
   es_call opt v e t (es, d) =
     Returns () (es\<lparr>best_score := Some (fneg v), val_loss_min := v, counter := 0\<rparr>,
                 (if e mod save_freq opt \<noteq> 0
        then d(ckpt_path opt (EpochNum e) \<mapsto> CheckpointFile (ckpt_state opt (EpochNum e) t))
        else d))"
  by (simp add: es_call_def es_save_checkpoint_ok)

lemma es_call_returns: "save_freq opt \<noteq> 0 \<Longrightarrow> returns (es_call opt v e t st)"
proof (cases st)
  case (Pair es d)
  assume sf: "save_freq opt \<noteq> 0"
  show ?thesis
  proof (cases "best_score es")
    case None
    with sf Pair show ?thesis by (simp add: es_call_first)
  next
    case (Some b)
    show ?thesis
    proof (cases "flt (fneg v) (fadd b (delta es))")
      case True
      with Some Pair show ?thesis by (simp add: es_call_worse)
    next
      case False
      with sf Some Pair show ?thesis by (simp add: es_call_better)
    qed
  qed
qed

lemma es_call_fields:
  "es_call opt v e t (es, d) = Returns r (es', d') \<Longrightarrow>
   patience es' = patience es \<and> delta es' = delta es \<and> best_score es' \<noteq> None"
  by (auto simp: es_call_def es_save_checkpoint_def save_checkpoint_def Let_def
      split: option.splits if_splits outcome.splits)

lemma es_calls_returns: "save_freq opt \<noteq> 0 \<Longrightarrow> returns (es_calls opt t cs st)"
proof (induction cs arbitrary: st)
  case Nil
  then show ?case by simp
next
  case (Cons c cs)
  obtain v e where c: "c = (v, e)" by (cases c)
  from Cons.prems have "returns (es_call opt v e t st)" by (rule es_call_returns)
  then obtain r st' where "es_call opt v e t st = Returns r st'"
    by (cases "es_call opt v e t st") simp_all
  with Cons c show ?case by simp
qed

lemma es_calls_fields:
  "es_calls opt t cs (es, d) = Returns r (es', d') \<Longrightarrow>
   patience es' = patience es \<and> delta es' = delta es \<and>
   (cs = [] \<longrightarrow> best_score es' = best_score es) \<and> (cs \<noteq> [] \<longrightarrow> best_score es' \<noteq> None)"
proof (induction cs arbitrary: es d)
  case Nil
  then show ?case by simp
next
  case (Cons c cs)
  obtain v e where c: "c = (v, e)" by (cases c)
  from Cons.prems c obtain r1 es1 d1 where
    s1: "es_call opt v e t (es, d) = Returns r1 (es1, d1)"
    and s2: "es_calls opt t cs (es1, d1) = Returns r (es', d')"
    by (auto split: outcome.splits)
  from es_call_fields [OF s1] Cons.IH [OF s2] show ?case by auto
qed

lemma es_calls_initial:
  assumes "save_freq opt \<noteq> 0"
    and "state_of (es_calls opt t cs (EarlyStopping p vb dl pth, d0)) = (es, d)"
  shows "patience es = p \<and> delta es = dl \<and> (cs = [] \<and> best_score es = None \<or> cs \<noteq> [] \<and> best_score es \<noteq> None)"
proof -
  from es_calls_returns [OF assms(1), of t cs "(EarlyStopping p vb dl pth, d0)"] assms(2)
  obtain r where "es_calls opt t cs (EarlyStopping p vb dl pth, d0) = Returns r (es, d)"
    by (cases "es_calls opt t cs (EarlyStopping p vb dl pth, d0)") auto
  from es_calls_fields [OF this] show ?thesis
    by (cases "cs = []") (simp_all add: EarlyStopping_def)
qed

text \<open>
  Claim C1, as amended. For every sequence of calls on a fresh \<^verbatim>\<open>EarlyStopping\<close> object with
  patience \<open>p\<close> and delta \<open>dl\<close>, under a non-zero \<^verbatim>\<open>opt.save_freq\<close>: the first call sets
  \<^verbatim>\<open>best_score\<close> to \<^verbatim>\<open>-val_loss\<close> and runs \<^verbatim>\<open>EarlyStopping.save_checkpoint\<close>, which sets
  \<^verbatim>\<open>val_loss_min\<close> and writes the checkpoint file only when the epoch is not a multiple of
  \<^verbatim>\<open>opt.save_freq\<close>; every later call with \<^verbatim>\<open>-val_loss < best_score + delta\<close> adds one to
  \<^verbatim>\<open>counter\<close>, leaves the disk alone and sets \<^verbatim>\<open>early_stop\<close> exactly when the new counter has
  reached the patience; every later call with \<^verbatim>\<open>-val_loss >= best_score + delta\<close> sets
  \<^verbatim>\<open>best_score\<close>, runs \<^verbatim>\<open>EarlyStopping.save_checkpoint\<close> in the same way and resets
  \<^verbatim>\<open>counter\<close> to 0.
\<close>

theorem early_stopping_call_sequence:
  assumes "save_freq opt \<noteq> 0"
    and "state_of (es_calls opt t cs (EarlyStopping p vb dl pth, d0)) = (es, d)"
  shows "(cs = [] \<longrightarrow>
            es_call opt v e t (es, d) =
              Returns () (es\<lparr>best_score := Some (fneg v), val_loss_min := v\<rparr>,
                if e mod save_freq opt \<noteq> 0
                then d(ckpt_path opt (EpochNum e) \<mapsto> CheckpointFile (ckpt_state opt (EpochNum e) t))
                else d))
       \<and> (cs \<noteq> [] \<longrightarrow> (\<exists>b. best_score es = Some b
            \<and> (flt (fneg v) (fadd b dl) \<longrightarrow>
                 es_call opt v e t (es, d) =
                   Returns () (es\<lparr>counter := counter es + 1,
                                  early_stop := (early_stop es \<or> p \<le> counter es + 1)\<rparr>, d))
            \<and> (fge (fneg v) (fadd b dl) \<longrightarrow>
                 es_call opt v e t (es, d) =
                   Returns () (es\<lparr>best_score := Some (fneg v), val_loss_min := v, counter := 0\<rparr>,
                     if e mod save_freq opt \<noteq> 0
                     then d(ckpt_path opt (EpochNum e) \<mapsto> CheckpointFile (ckpt_state opt (EpochNum e) t))
                     else d))))"
proof -
  from es_calls_initial [OF assms]
  have pd: "patience es = p" "delta es = dl"
    and bs: "cs = [] \<and> best_score es = None \<or> cs \<noteq> [] \<and> best_score es \<noteq> None"
    by simp_all
  show ?thesis
  proof (cases "cs = []")
    case True
    with bs have "best_score es = None" by simp
    from es_call_first [OF assms(1) this, of v e t d] True show ?thesis
      by blast
  next
    case False
    with bs obtain b where b: "best_score es = Some b" by auto
    have w: "flt (fneg v) (fadd b dl) \<longrightarrow>
                 es_call opt v e t (es, d) =
                   Returns () (es\<lparr>counter := counter es + 1,
                                  early_stop := (early_stop es \<or> p \<le> counter es + 1)\<rparr>, d)"
      using es_call_worse [OF b, of v opt e t d] pd by simp
    have g: "fge (fneg v) (fadd b dl) \<longrightarrow>
                 es_call opt v e t (es, d) =
                   Returns () (es\<lparr>best_score := Some (fneg v), val_loss_min := v, counter := 0\<rparr>,
                     if e mod save_freq opt \<noteq> 0
                     then d(ckpt_path opt (EpochNum e) \<mapsto> CheckpointFile (ckpt_state opt (EpochNum e) t))
                     else d)"
      using es_call_better [OF assms(1) b, of v e t d] pd fge_not_flt [of "fneg v" "fadd b dl"]
      by metis
    from False b w g show ?thesis by blast
  qed
qed

lemma es_example_reached:
  "es_calls default_opt trainer0 [(Num 3, 15)] (EarlyStopping 2 True (Num 0) ''checkpoint.pt'', Map.empty)
     = Returns () (es_example, disk_example)"
  by (simp add: es_call_def es_save_checkpoint_def save_checkpoint_def EarlyStopping_def
      default_opt_def es_example_def disk_example_def)

theorem early_stopping_call_sequence_witness:
  "es_call default_opt (Num 3) 15 trainer0 (EarlyStopping 2 True (Num 0) ''checkpoint.pt'', Map.empty)
     = Returns () (es_example, disk_example)
   \<and> es_call default_opt (Num 4) 20 trainer0 (es_example, disk_example)
     = Returns () (es_example\<lparr>counter := 1\<rparr>, disk_example)
   \<and> es_call default_opt (Num 5) 30 trainer0 (es_example\<lparr>counter := 1\<rparr>, disk_example)
     = Returns () (es_example\<lparr>counter := 2, early_stop := True\<rparr>, disk_example)
   \<and> es_call default_opt (Num 2) 20 trainer0 (es_example, disk_example)
     = Returns () (es_example\<lparr>best_score := Some (Num (- 2)), val_loss_min := Num 2\<rparr>, disk_example)"
proof -
  have sf: "save_freq default_opt \<noteq> 0" by (simp add: default_opt_def)
  have s0: "state_of (es_calls default_opt trainer0 []
              (EarlyStopping 2 True (Num 0) ''checkpoint.pt'', Map.empty))
            = (EarlyStopping 2 True (Num 0) ''checkpoint.pt'', Map.empty)" by simp
  have s1: "state_of (es_calls default_opt trainer0 [(Num 3, 15)]
              (EarlyStopping 2 True (Num 0) ''checkpoint.pt'', Map.empty))
            = (es_example, disk_example)" by (simp only: es_example_reached state_of.simps)
  have s2: "state_of (es_calls default_opt trainer0 [(Num 3, 15), (Num 4, 20)]
              (EarlyStopping 2 True (Num 0) ''checkpoint.pt'', Map.empty))
            = (es_example\<lparr>counter := 1\<rparr>, disk_example)"
    by (simp add: es_call_def es_save_checkpoint_def save_checkpoint_def EarlyStopping_def
      default_opt_def es_example_def disk_example_def)
  show ?thesis
    using early_stopping_call_sequence [OF sf s0, of "Num 3" 15]
      early_stopping_call_sequence [OF sf s1, of "Num 4" 20]
      early_stopping_call_sequence [OF sf s2, of "Num 5" 30]
      early_stopping_call_sequence [OF sf s1, of "Num 2" 20]
    by (simp add: EarlyStopping_def default_opt_def es_example_def disk_example_def fge_def)
qed

text \<open>
  The claim as first stated has every first call save a checkpoint. With the default
  \<^verbatim>\<open>save_freq\<close> of 10, the first call at epoch 10 leaves the disk empty.
\<close>

theorem first_call_saves_counterexample:
  "state_of (es_call default_opt (Num 3) 10 trainer0
      (EarlyStopping 20 True (Num 0) ''checkpoint.pt'', Map.empty))
   = (\<lparr>patience = 20, verbose = True, counter = 0, best_score = Some (Num (- 3)),
       early_stop = False, val_loss_min = Num 3, delta = Num 0, path = ''checkpoint.pt''\<rparr>,
      Map.empty)"
  by (simp add: es_call_def es_save_checkpoint_def EarlyStopping_def default_opt_def)

text \<open>
  Claim C4, as amended. On every call where the validation loss improves (the first call, or
  a score of at least \<^verbatim>\<open>best_score + delta\<close>), under a non-zero \<^verbatim>\<open>opt.save_freq\<close>, the call
  returns with \<^verbatim>\<open>val_loss_min\<close> set to the new validation loss; the checkpoint file of the
  epoch is written when the epoch is not a multiple of \<^verbatim>\<open>opt.save_freq\<close>, and the disk is
  unchanged when it is.
\<close>

theorem improvement_updates_val_loss_min:
  assumes "save_freq opt \<noteq> 0"
    and "best_score es = None \<or> (\<exists>b. best_score es = Some b \<and> fge (fneg v) (fadd b (delta es)))"
  shows "\<exists>es'. es_call opt v e t (es, d) =
           Returns () (es',
             if e mod save_freq opt \<noteq> 0
             then d(ckpt_path opt (EpochNum e) \<mapsto> CheckpointFile (ckpt_state opt (EpochNum e) t))
             else d)
         \<and> val_loss_min es' = v"
proof (cases "best_score es")
  case None
  from es_call_first [OF assms(1) None, of v e t d] show ?thesis by simp
next
  case (Some b)
  with assms(2) have "\<not> flt (fneg v) (fadd b (delta es))" by (simp add: fge_not_flt)
  from es_call_better [OF assms(1) Some this, of e t d] show ?thesis by simp
qed

theorem improvement_updates_val_loss_min_witness:
  "(\<exists>es'. es_call default_opt (Num 2) 25 trainer0 (es_example, disk_example) =
           Returns () (es', disk_example(ckpt_path default_opt (EpochNum 25) \<mapsto>
              CheckpointFile (ckpt_state default_opt (EpochNum 25) trainer0)))
         \<and> val_loss_min es' = Num 2)
   \<and> (\<exists>es'. es_call default_opt (Num 2) 20 trainer0 (es_example, disk_example) =
           Returns () (es', disk_example) \<and> val_loss_min es' = Num 2)"
proof -
  have sf: "save_freq default_opt \<noteq> 0" by (simp add: default_opt_def)
  have im: "best_score es_example = None \<or>
    (\<exists>b. best_score es_example = Some b \<and> fge (fneg (Num 2)) (fadd b (delta es_example)))"
    by (simp add: es_example_def fge_def)
  show ?thesis
    using improvement_updates_val_loss_min [OF sf im, of 25 trainer0 disk_example]
      improvement_updates_val_loss_min [OF sf im, of 20 trainer0 disk_example]
    by (simp add: default_opt_def)
qed

text \<open>
  The claim as first stated has the checkpoint saved at every epoch of an improvement. An
  improving call at epoch 20 updates \<^verbatim>\<open>val_loss_min\<close> and writes nothing.
\<close>

theorem improvement_saves_counterexample:
  "es_call default_opt (Num 2) 20 trainer0 (es_example, disk_example)
     = Returns () (es_example\<lparr>best_score := Some (Num (- 2)), val_loss_min := Num 2\<rparr>, disk_example)
   \<and> disk_example (ckpt_path default_opt (EpochNum 20)) = None"
  apply (simp add: es_call_def es_save_checkpoint_def default_opt_def es_example_def disk_example_def)
  apply (simp add: ckpt_path_def os_path_join_def str_int_def)
  apply code_simp
  done

lemma fle_fadd_nonneg:
  "b \<noteq> NaN \<Longrightarrow> s \<noteq> NaN \<Longrightarrow> fle (Num 0) dl \<Longrightarrow> \<not> flt s (fadd b dl) \<Longrightarrow> fle b s"
  by (cases b; cases s; cases dl) simp_all

lemma es_call_state_cases:
  "fst (state_of (es_call opt v e t (es, d))) =
     (case best_score es of
        None \<Rightarrow> (if save_freq opt = 0 then es\<lparr>best_score := Some (fneg v)\<rparr>
                 else es\<lparr>best_score := Some (fneg v), val_loss_min := v\<rparr>)
      | Some b \<Rightarrow>
          if flt (fneg v) (fadd b (delta es))
          then es\<lparr>counter := counter es + 1,
                  early_stop := (early_stop es \<or> patience es \<le> counter es + 1)\<rparr>
          else if save_freq opt = 0 then es\<lparr>best_score := Some (fneg v)\<rparr>
          else es\<lparr>best_score := Some (fneg v), val_loss_min := v, counter := 0\<rparr>)"
  by (simp add: es_call_def es_save_checkpoint_def save_checkpoint_def Let_def split: option.splits)

text \<open>
  Claim C10, as amended. Every call preserves the following, whether it returns or raises:
  \<^verbatim>\<open>early_stop\<close>, once true, stays true; when \<^verbatim>\<open>delta\<close> is at least 0 and neither the loss
  nor the best score is not-a-number, \<^verbatim>\<open>best_score\<close> does not decrease and stays a number;
  a call made with \<^verbatim>\<open>0 <= counter < patience\<close> leaves \<^verbatim>\<open>0 <= counter <= patience\<close>, and
  \<^verbatim>\<open>counter < patience\<close> again unless it has set \<^verbatim>\<open>early_stop\<close>. So the counter never exceeds
  a patience of at least 1 as long as no call follows the one that set \<^verbatim>\<open>early_stop\<close>, which
  is how \<^verbatim>\<open>main\<close> uses the object.
\<close>

theorem early_stopping_invariants:
  assumes "es' = fst (state_of (es_call opt v e t (es, d)))"
  shows "(early_stop es \<longrightarrow> early_stop es')
       \<and> (\<forall>b. best_score es = Some b \<and> b \<noteq> NaN \<and> v \<noteq> NaN \<and> fle (Num 0) (delta es)
             \<longrightarrow> (\<exists>b'. best_score es' = Some b' \<and> b' \<noteq> NaN \<and> fle b b'))
       \<and> (0 \<le> counter es \<and> counter es < patience es
             \<longrightarrow> 0 \<le> counter es' \<and> counter es' \<le> patience es'
                 \<and> (early_stop es' \<or> counter es' < patience es'))"
proof -
  note st = assms [unfolded es_call_state_cases]
  have a: "early_stop es \<longrightarrow> early_stop es'"
    using st by (simp split: option.splits if_splits)
  have c: "0 \<le> counter es \<and> counter es < patience es
             \<longrightarrow> 0 \<le> counter es' \<and> counter es' \<le> patience es'
                 \<and> (early_stop es' \<or> counter es' < patience es')"
    using st by (auto split: option.splits if_splits)
  have b: "\<exists>b'. best_score es' = Some b' \<and> b' \<noteq> NaN \<and> fle b b'"
    if h: "best_score es = Some b" "b \<noteq> NaN" "v \<noteq> NaN" "fle (Num 0) (delta es)" for b
  proof (cases "flt (fneg v) (fadd b (delta es))")
    case True
    with st h have "best_score es' = Some b" by simp
    moreover from h(2) have "fle b b" by (cases b) simp_all
    ultimately show ?thesis using h(2) by simp
  next
    case False
    with st h have bs: "best_score es' = Some (fneg v)" by simp
    from h(3) have nn: "fneg v \<noteq> NaN" by (cases v) simp_all
    from fle_fadd_nonneg [OF h(2) nn h(4) False] bs nn show ?thesis by simp
  qed
  from a b c show ?thesis by blast
qed

theorem early_stopping_invariants_witness:
  "early_stop (fst (state_of (es_call default_opt (Num 4) 20 trainer0
       (es_example\<lparr>counter := 1, early_stop := True\<rparr>, disk_example))))
   \<and> (\<exists>b'. best_score (fst (state_of (es_call default_opt (Num 2) 20 trainer0
       (es_example, disk_example)))) = Some b' \<and> b' \<noteq> NaN \<and> fle (Num (- 3)) b')
   \<and> counter (fst (state_of (es_call default_opt (Num 4) 20 trainer0
       (es_example\<lparr>counter := 1\<rparr>, disk_example)))) \<le> 2"
  using early_stopping_invariants [of _ default_opt "Num 4" 20 trainer0
           "es_example\<lparr>counter := 1, early_stop := True\<rparr>" disk_example, OF refl]
    early_stopping_invariants [of _ default_opt "Num 2" 20 trainer0 es_example disk_example, OF refl]
    early_stopping_invariants [of _ default_opt "Num 4" 20 trainer0
           "es_example\<lparr>counter := 1\<rparr>" disk_example, OF refl]
  by (simp add: es_example_def es_call_state_cases)

text \<open>
  The claim as first stated fails in each of the parts amended: with patience 1 a third
  call raises the counter to 2; with a delta of -1 the best score falls from -1 to -3/2;
  a not-a-number loss replaces the best score by not-a-number.
\<close>

theorem early_stopping_invariants_counterexample:
  "counter (fst (state_of (es_calls default_opt trainer0 [(Num 1, 10), (Num 2, 20), (Num 3, 30)]
      (EarlyStopping 1 False (Num 0) ''checkpoint.pt'', Map.empty :: (nat, nat, nat) fs)))) = 2
   \<and> best_score (fst (state_of (es_calls default_opt trainer0 [(Num 1, 10)]
      (EarlyStopping 7 False (Num (- 1)) ''checkpoint.pt'', Map.empty :: (nat, nat, nat) fs)))) = Some (Num (- 1))
   \<and> best_score (fst (state_of (es_calls default_opt trainer0 [(Num 1, 10), (Num (3 / 2), 20)]
      (EarlyStopping 7 False (Num (- 1)) ''checkpoint.pt'', Map.empty :: (nat, nat, nat) fs)))) = Some (Num (- (3 / 2)))
   \<and> best_score (fst (state_of (es_calls default_opt trainer0 [(Num 1, 10), (NaN, 20)]
      (EarlyStopping 7 False (Num 0) ''checkpoint.pt'', Map.empty :: (nat, nat, nat) fs)))) = Some NaN"
  by (simp add: es_call_def es_save_checkpoint_def save_checkpoint_def EarlyStopping_def
      default_opt_def)

subsection \<open>Training one epoch\<close>

lemma train_batches_clipping:
  "flt (Num 0) (clip_norm config) \<Longrightarrow> returns (train_batches ev config bs st)"
  by (induction bs arbitrary: st) (auto simp: Let_def)

text \<open>
  Claim C9. \<^verbatim>\<open>train_one_epoch\<close> completes a batch only when \<^verbatim>\<open>config.clip_norm > 0\<close>: for
  every configuration where that test fails (a \<^verbatim>\<open>clip_norm\<close> of at most 0, or not-a-number)
  and every non-empty loader, the call raises \<^verbatim>\<open>NameError\<close> in the first batch, after the
  optimizer and scheduler steps of that batch. When the test holds, the call never raises
  \<^verbatim>\<open>NameError\<close>, and it returns when \<^verbatim>\<open>val_freq\<close> is not zero.
\<close>

theorem train_one_epoch_needs_clip_norm:
  "(\<not> flt (Num 0) (clip_norm config) \<and> loader \<noteq> []
      \<longrightarrow> train_one_epoch ev epoch loader config t = Raises NameError (batch_step ev (hd loader) t))
   \<and> (flt (Num 0) (clip_norm config)
      \<longrightarrow> (\<forall>s. train_one_epoch ev epoch loader config t \<noteq> Raises NameError s)
        \<and> (val_freq config \<noteq> 0 \<longrightarrow> returns (train_one_epoch ev epoch loader config t)))"
proof (intro conjI impI allI)
  assume "\<not> flt (Num 0) (clip_norm config) \<and> loader \<noteq> []"
  then show "train_one_epoch ev epoch loader config t = Raises NameError (batch_step ev (hd loader) t)"
    by (cases loader) (simp_all add: train_one_epoch_def)
next
  fix s
  assume c: "flt (Num 0) (clip_norm config)"
  from train_batches_clipping [OF c, of ev loader "(None, t)"]
  obtain r st where "train_batches ev config loader (None, t) = Returns r st"
    by (cases "train_batches ev config loader (None, t)") simp_all
  then show "train_one_epoch ev epoch loader config t \<noteq> Raises NameError s"
    by (simp add: train_one_epoch_def)
next
  assume c: "flt (Num 0) (clip_norm config)" and v: "val_freq config \<noteq> 0"
  from train_batches_clipping [OF c, of ev loader "(None, t)"]
  obtain r st where "train_batches ev config loader (None, t) = Returns r st"
    by (cases "train_batches ev config loader (None, t)") simp_all
  with v show "returns (train_one_epoch ev epoch loader config t)"
    by (simp add: train_one_epoch_def)
qed

theorem train_one_epoch_needs_clip_norm_witness:
  "train_one_epoch env0 1 (train_loader env0) (default_opt\<lparr>clip_norm := Num 0\<rparr>) trainer0
     = Raises NameError \<lparr>model_sd = 1, optimizer_sd = 1, scheduler_sd = 1\<rparr>
   \<and> returns (train_one_epoch env0 1 (train_loader env0) default_opt trainer0)"
  using train_one_epoch_needs_clip_norm [of "default_opt\<lparr>clip_norm := Num 0\<rparr>" "train_loader env0" env0 1 trainer0]
    train_one_epoch_needs_clip_norm [of default_opt "train_loader env0" env0 1 trainer0]
  by (simp add: default_opt_def env0_def trainer0_def)

subsection \<open>Evaluating one epoch\<close>

lemma digits_value_snoc: "digits_value (cs @ [c]) = digits_value cs * 10 + (of_char c - 48)"
  by (induction cs) simp_all

lemma digit_value: "d < 10 \<Longrightarrow> of_char (digit d) - 48 = d"
proof -
  assume "d < 10"
  then have "d \<in> {0, 1, 2, 3, 4, 5, 6, 7, 8, 9}" by auto
  then show ?thesis by (auto simp: digit_def)
qed

lemma digits_value_str_nat: "digits_value (str_nat n) = n"
proof (induction n rule: str_nat.induct)
  case (1 n)
  show ?case
  proof (cases "n < 10")
    case True
    then show ?thesis by (simp add: str_nat.simps [of n] digit_value)
  next
    case False
    with 1 have "digits_value (str_nat (n div 10)) = n div 10" by simp
    with False show ?thesis
      by (simp add: str_nat.simps [of n] digits_value_snoc digit_value)
  qed
qed

lemma str_nat_inject: "str_nat m = str_nat n \<Longrightarrow> m = n"
  by (metis digits_value_str_nat)

lemma str_nat_nonempty: "str_nat n \<noteq> []"
  by (subst str_nat.simps) simp

lemma head_prefix_inj: "inj_on (\<lambda>i. str_int i @ ''head_'') {0..}"
  by (auto simp: inj_on_def str_int_def dest!: str_nat_inject)

lemma last_not_head: "''last_'' \<noteq> str_int i @ ''head_''"
proof
  assume "''last_'' = str_int i @ ''head_''"
  then have "rev ''last_'' = rev (str_int i @ ''head_'')" by (rule arg_cong)
  then show False by simp
qed

lemma proposal_not_head: "''proposal_'' \<noteq> str_int i @ ''head_''"
proof
  assume "''proposal_'' = str_int i @ ''head_''"
  then have "rev ''proposal_'' = rev (str_int i @ ''head_'')" by (rule arg_cong)
  then show False by simp
qed

text \<open>
  Claim C6. When \<^verbatim>\<open>config.num_decoder_layers\<close> is positive, the prefixes that
  \<^verbatim>\<open>evaluate_one_epoch\<close> evaluates are \<^verbatim>\<open>'last_'\<close>, \<^verbatim>\<open>'proposal_'\<close> and \<^verbatim>\<open>'{i}head_'\<close> for
  every integer \<open>i\<close> from 0 to \<^verbatim>\<open>num_decoder_layers - 2\<close>; they are pairwise different, so
  there are \<^verbatim>\<open>num_decoder_layers + 1\<close> of them. When \<^verbatim>\<open>num_decoder_layers\<close> is 0 or negative
  the list is \<^verbatim>\<open>['proposal_']\<close>.
\<close>

theorem prefixes_of_decoder_layers:
  "(0 < num_decoder_layers config \<longrightarrow>
      prefixes config = ''last_'' # ''proposal_'' #
         map (\<lambda>i. str_int i @ ''head_'') [0..num_decoder_layers config - 2]
      \<and> set (prefixes config) = {''last_'', ''proposal_''} \<union>
           (\<lambda>i. str_int i @ ''head_'') ` {0..num_decoder_layers config - 2}
      \<and> distinct (prefixes config)
      \<and> int (length (prefixes config)) = num_decoder_layers config + 1)
   \<and> (num_decoder_layers config \<le> 0 \<longrightarrow> prefixes config = [''proposal_''])"
proof (intro conjI impI)
  assume pos: "0 < num_decoder_layers config"
  show eq: "prefixes config = ''last_'' # ''proposal_'' #
         map (\<lambda>i. str_int i @ ''head_'') [0..num_decoder_layers config - 2]"
    using pos by (simp add: prefixes_def)
  show "set (prefixes config) = {''last_'', ''proposal_''} \<union>
           (\<lambda>i. str_int i @ ''head_'') ` {0..num_decoder_layers config - 2}"
    by (simp add: eq)
  have "inj_on (\<lambda>i. str_int i @ ''head_'') (set [0..num_decoder_layers config - 2])"
    by (rule inj_on_subset [OF head_prefix_inj]) auto
  then have "distinct (map (\<lambda>i. str_int i @ ''head_'') [0..num_decoder_layers config - 2])"
    by (simp add: distinct_map)
  then show "distinct (prefixes config)"
    by (auto simp: eq last_not_head proposal_not_head)
  show "int (length (prefixes config)) = num_decoder_layers config + 1"
    using pos by (simp add: eq)
next
  assume "num_decoder_layers config \<le> 0"
  then show "prefixes config = [''proposal_'']" by (simp add: prefixes_def)
qed

theorem prefixes_of_decoder_layers_witness:
  "prefixes default_opt = [''last_'', ''proposal_'', ''0head_'', ''1head_'', ''2head_'',
      ''3head_'', ''4head_'', ''5head_'', ''6head_'']
   \<and> distinct (prefixes default_opt) \<and> length (prefixes default_opt) = 9
   \<and> prefixes (default_opt\<lparr>num_decoder_layers := 0\<rparr>) = [''proposal_'']"
proof -
  have "[0..6::int] = [0, 1, 2, 3, 4, 5, 6]" by code_simp
  moreover have "map str_int [0, 1, 2, 3, 4, 5, 6] = [''0'', ''1'', ''2'', ''3'', ''4'', ''5'', ''6'']"
    by code_simp
  ultimately show ?thesis
    using prefixes_of_decoder_layers [of default_opt]
      prefixes_of_decoder_layers [of "default_opt\<lparr>num_decoder_layers := 0\<rparr>"]
    by (simp add: default_opt_def)
qed

lemma eval_batches_collects:
  "print_freq config \<noteq> 0 \<Longrightarrow>
   eval_batches ev config t bs acc = Returns () (acc @ map (\<lambda>b. loss_item ev b t) bs)"
  by (induction bs arbitrary: acc) (simp_all add: Let_def)

lemma eval_batches_empty: "eval_batches ev config t [] acc = Returns () acc"
  by simp

lemma evaluate_one_epoch_returns:
  "print_freq config \<noteq> 0 \<Longrightarrow>
   evaluate_one_epoch ev loader config t plots_dict =
     Returns (plots_dict @ List.product (prefixes config) (ap_iou_thresholds config),
              np_average (map (\<lambda>b. loss_item ev b t) loader)) ()"
  by (simp add: evaluate_one_epoch_def eval_batches_collects)





subsection \<open>The epoch loop of main\<close>

lemma trained_append: "trained (xs @ ys) = trained xs @ trained ys"
  by (induction xs rule: trained.induct) simp_all

lemma evaluate_one_epoch_returns_iff:
  "returns (evaluate_one_epoch ev loader a t p) = (print_freq a \<noteq> 0 \<or> loader = [])"
proof (cases "print_freq a = 0")
  case True
  then show ?thesis by (cases loader) (simp_all add: evaluate_one_epoch_def)
next
  case False
  then show ?thesis by (simp add: evaluate_one_epoch_returns)
qed

lemma es_call_raises_early_stop:
  "es_call opt v e t (es, d) = Raises err st \<Longrightarrow> early_stop (fst st) = early_stop es"
  by (auto simp: es_call_def es_save_checkpoint_def save_checkpoint_def Let_def
      split: option.splits if_splits outcome.splits)

lemma train_eval_part_frame:
  "stopper (state_of (train_eval_part ev a e w)) = stopper w
   \<and> trained (trace (state_of (train_eval_part ev a e w))) = trained (trace w)"
  by (simp add: train_eval_part_def Let_def trained_append split: outcome.splits)

lemma validation_part_trained:
  "trained (trace (state_of (validation_part ev a e w))) = trained (trace w)"
  by (simp add: validation_part_def Let_def trained_append split: outcome.splits)

lemma validation_part_break:
  assumes "validation_part ev a e w = Returns Break w'"
  shows "early_stop (stopper w') \<and> val_freq a \<noteq> 0 \<and> e mod val_freq a = 0
         \<and> (print_freq a \<noteq> 0 \<or> test_loader ev = [])
         \<and> (\<exists>v. trace w' = trace w @ [Evaluate TestLoader, EarlyStop v e])"
proof -
  from assms have vf: "val_freq a \<noteq> 0" "e mod val_freq a = 0"
    by (auto simp: validation_part_def split: if_splits)
  let ?w1 = "w\<lparr>trace := trace w @ [Evaluate TestLoader]\<rparr>"
  from assms vf obtain r u where
    ev: "evaluate_one_epoch ev (test_loader ev) a (net ?w1) (val_metrics_dict ?w1) = Returns r u"
    by (cases "evaluate_one_epoch ev (test_loader ev) a (net ?w1) (val_metrics_dict ?w1)")
       (auto simp: validation_part_def Let_def)
  then have "returns (evaluate_one_epoch ev (test_loader ev) a (net ?w1) (val_metrics_dict ?w1))"
    by simp
  then have ok: "print_freq a \<noteq> 0 \<or> test_loader ev = []"
    by (simp only: evaluate_one_epoch_returns_iff)
  from assms vf ev have "early_stop (stopper w') \<and> trace w' = trace w @ [Evaluate TestLoader, EarlyStop (snd r) e]"
    by (auto simp: validation_part_def Let_def split: outcome.splits if_splits)
  with vf ok show ?thesis by blast
qed

lemma validation_part_continue:
  assumes "validation_part ev a e w = Returns Continue w'" and "\<not> early_stop (stopper w)"
  shows "\<not> early_stop (stopper w')"
  using assms by (auto simp: validation_part_def Let_def split: outcome.splits if_splits)

lemma validation_part_raises:
  assumes "validation_part ev a e w = Raises err w'" and "\<not> early_stop (stopper w)"
  shows "\<not> early_stop (stopper w')"
  using assms
  by (auto simp: validation_part_def Let_def split: outcome.splits if_splits
      dest: es_call_raises_early_stop)

lemma epoch_body_trained:
  "trained (trace (state_of (epoch_body ev a e w))) = trained (trace w) @ [e]"
proof -
  let ?w0 = "w\<lparr>trace := trace w @ [Train e]\<rparr>"
  show ?thesis
  proof (cases "train_one_epoch ev e (train_loader ev) a (net ?w0)")
    case (Raises err t)
    then show ?thesis by (simp add: epoch_body_def Let_def trained_append)
  next
    case (Returns r t)
    let ?w1 = "?w0\<lparr>net := t,
      disk := (disk ?w0)(os_path_join (log_dir a) ''train_loss_dict.pkl'' \<mapsto> PickleFile)\<rparr>"
    have w1: "trained (trace ?w1) = trained (trace w) @ [e]" by (simp add: trained_append)
    show ?thesis
    proof (cases "rank ev = 0")
      case False
      with Returns show ?thesis by (simp add: epoch_body_def Let_def trained_append)
    next
      case True
      show ?thesis
      proof (cases "train_eval_part ev a e ?w1")
        case (Raises err w2)
        with train_eval_part_frame [of ev a e ?w1] have "trained (trace w2) = trained (trace w) @ [e]"
          by (simp add: trained_append)
        with Raises Returns True show ?thesis by (simp add: epoch_body_def Let_def)
      next
        case r2: (Returns r' w2)
        with train_eval_part_frame [of ev a e ?w1] have t2: "trained (trace w2) = trained (trace w) @ [e]"
          by (simp add: trained_append)
        from validation_part_trained [of ev a e w2] t2
        have t3: "trained (trace (state_of (validation_part ev a e w2))) = trained (trace w) @ [e]"
          by simp
        show ?thesis
        proof (cases "validation_part ev a e w2")
          case (Raises err w3)
          with t3 r2 Returns True show ?thesis by (simp add: epoch_body_def Let_def)
        next
          case r3: (Returns c w3)
          with t3 have t3': "trained (trace w3) = trained (trace w) @ [e]" by simp
          show ?thesis
          proof (cases c)
            case Break
            with r3 t3' r2 Returns True show ?thesis by (simp add: epoch_body_def Let_def)
          next
            case Continue
            with r3 t3' r2 Returns True show ?thesis
              by (simp add: epoch_body_def Let_def trained_append split: outcome.splits)
          qed
        qed
      qed
    qed
  qed
qed

lemma epoch_body_break:
  assumes "epoch_body ev a e w = Returns Break w'"
  shows "early_stop (stopper w') \<and> rank ev = 0 \<and> val_freq a \<noteq> 0 \<and> e mod val_freq a = 0
         \<and> (print_freq a \<noteq> 0 \<or> test_loader ev = [])
         \<and> (\<exists>pre v. trace w' = pre @ [EarlyStop v e])"
proof -
  from assms obtain w2 where "validation_part ev a e w2 = Returns Break w'" and "rank ev = 0"
    by (auto simp: epoch_body_def Let_def split: outcome.splits if_splits loop_ctl.splits)
  with validation_part_break [of ev a e w2 w'] show ?thesis by auto
qed

lemma epoch_body_no_break:
  assumes "\<not> early_stop (stopper w)"
    and "epoch_body ev a e w = Returns Continue w' \<or> epoch_body ev a e w = Raises err w'"
  shows "\<not> early_stop (stopper w')"
proof -
  let ?w0 = "w\<lparr>trace := trace w @ [Train e]\<rparr>"
  show ?thesis
  proof (cases "train_one_epoch ev e (train_loader ev) a (net ?w0)")
    case (Raises err' t)
    with assms show ?thesis by (auto simp: epoch_body_def Let_def)
  next
    case (Returns r t)
    let ?w1 = "?w0\<lparr>net := t,
      disk := (disk ?w0)(os_path_join (log_dir a) ''train_loss_dict.pkl'' \<mapsto> PickleFile)\<rparr>"
    show ?thesis
    proof (cases "rank ev = 0")
      case False
      with Returns assms show ?thesis by (auto simp: epoch_body_def Let_def)
    next
      case True
      show ?thesis
      proof (cases "train_eval_part ev a e ?w1")
        case (Raises err' w2)
        with train_eval_part_frame [of ev a e ?w1] assms(1) have "\<not> early_stop (stopper w2)" by simp
        with Raises Returns True assms(2) show ?thesis by (auto simp: epoch_body_def Let_def)
      next
        case r2: (Returns r' w2)
        with train_eval_part_frame [of ev a e ?w1] assms(1) have s2: "\<not> early_stop (stopper w2)" by simp
        show ?thesis
        proof (cases "validation_part ev a e w2")
          case (Raises err' w3)
          from validation_part_raises [OF Raises s2] Raises r2 Returns True assms(2)
          show ?thesis by (auto simp: epoch_body_def Let_def)
        next
          case r3: (Returns c w3)
          show ?thesis
          proof (cases c)
            case Break
            with r3 r2 Returns True assms(2) show ?thesis by (auto simp: epoch_body_def Let_def)
          next
            case Continue
            with r3 have "validation_part ev a e w2 = Returns Continue w3" by simp
            from validation_part_continue [OF this s2] have "\<not> early_stop (stopper w3)" .
            with Continue r3 r2 Returns True assms(2) show ?thesis
              by (auto simp: epoch_body_def Let_def split: outcome.splits)
          qed
        qed
      qed
    qed
  qed
qed

lemma epoch_loop_prefix:
  "\<exists>k. (es \<noteq> [] \<longrightarrow> 0 < k)
       \<and> trained (trace (state_of (epoch_loop ev a es w))) = trained (trace w) @ take k es"
proof (induction es arbitrary: w)
  case Nil
  then show ?case by simp
next
  case (Cons e es)
  show ?case
  proof (cases "epoch_body ev a e w")
    case (Raises err w1)
    with epoch_body_trained [of ev a e w]
    have "trained (trace (state_of (epoch_loop ev a (e # es) w))) = trained (trace w) @ take 1 (e # es)"
      by simp
    then show ?thesis by (intro exI [of _ 1]) simp
  next
    case (Returns c w1)
    with epoch_body_trained [of ev a e w] have t1: "trained (trace w1) = trained (trace w) @ [e]"
      by simp
    show ?thesis
    proof (cases c)
      case Break
      with Returns t1
      have "trained (trace (state_of (epoch_loop ev a (e # es) w))) = trained (trace w) @ take 1 (e # es)"
        by simp
      then show ?thesis by (intro exI [of _ 1]) simp
    next
      case Continue
      from Cons.IH [of w1] obtain k where
        "trained (trace (state_of (epoch_loop ev a es w1))) = trained (trace w1) @ take k es" by blast
      with Continue Returns t1
      have "trained (trace (state_of (epoch_loop ev a (e # es) w))) = trained (trace w) @ take (Suc k) (e # es)"
        by simp
      then show ?thesis by (intro exI [of _ "Suc k"]) simp
    qed
  qed
qed

lemma epoch_loop_stopped:
  assumes "\<not> early_stop (stopper w)"
    and "early_stop (stopper (state_of (epoch_loop ev a es w)))"
  shows "returns (epoch_loop ev a es w) \<and> rank ev = 0 \<and> val_freq a \<noteq> 0
         \<and> (print_freq a \<noteq> 0 \<or> test_loader ev = [])
         \<and> (\<exists>es1 e es2 pre v. es = es1 @ e # es2 \<and> e mod val_freq a = 0
               \<and> trained (trace (state_of (epoch_loop ev a es w))) = trained (trace w) @ es1 @ [e]
               \<and> trace (state_of (epoch_loop ev a es w)) = pre @ [EarlyStop v e])"
  using assms
proof (induction es arbitrary: w)
  case Nil
  then show ?case by simp
next
  case (Cons e es)
  show ?case
  proof (cases "epoch_body ev a e w")
    case (Raises err w1)
    then have "state_of (epoch_loop ev a (e # es) w) = w1" by simp
    with Cons.prems(2) have "early_stop (stopper w1)" by simp
    moreover have "\<not> early_stop (stopper w1)"
      by (rule epoch_body_no_break [OF Cons.prems(1)]) (rule disjI2, rule Raises)
    ultimately show ?thesis by contradiction
  next
    case (Returns c w1)
    with epoch_body_trained [of ev a e w] have t1: "trained (trace w1) = trained (trace w) @ [e]"
      by simp
    show ?thesis
    proof (cases c)
      case Break
      with Returns have b: "epoch_body ev a e w = Returns Break w1" by simp
      from epoch_body_break [OF b] obtain pre v where
        f: "rank ev = 0" "val_freq a \<noteq> 0" "e mod val_freq a = 0"
           "print_freq a \<noteq> 0 \<or> test_loader ev = []" "trace w1 = pre @ [EarlyStop v e]"
        by (elim conjE exE)
      from b have st: "state_of (epoch_loop ev a (e # es) w) = w1"
        and rt: "returns (epoch_loop ev a (e # es) w)" by simp_all
      have "e # es = [] @ e # es \<and> e mod val_freq a = 0
               \<and> trained (trace w1) = trained (trace w) @ [] @ [e]
               \<and> trace w1 = pre @ [EarlyStop v e]"
        using f(3,5) t1 by simp
      then have "\<exists>es1 e' es2 pre v. e # es = es1 @ e' # es2 \<and> e' mod val_freq a = 0
               \<and> trained (trace w1) = trained (trace w) @ es1 @ [e']
               \<and> trace w1 = pre @ [EarlyStop v e']"
        by (intro exI)
      with rt f(1,2,4) show ?thesis unfolding st by (intro conjI)
    next
      case Continue
      with Returns have c: "epoch_body ev a e w = Returns Continue w1" by simp
      have s1: "\<not> early_stop (stopper w1)"
        by (rule epoch_body_no_break [OF Cons.prems(1)]) (rule disjI1, rule c)
      from c have lp: "epoch_loop ev a (e # es) w = epoch_loop ev a es w1" by simp
      from Cons.prems(2) have "early_stop (stopper (state_of (epoch_loop ev a es w1)))"
        unfolding lp .
      from Cons.IH [OF s1 this] obtain es1 e' es2 pre v where
        r: "returns (epoch_loop ev a es w1)" "rank ev = 0" "val_freq a \<noteq> 0"
           "print_freq a \<noteq> 0 \<or> test_loader ev = []"
        and s: "es = es1 @ e' # es2" "e' mod val_freq a = 0"
           "trained (trace (state_of (epoch_loop ev a es w1))) = trained (trace w1) @ es1 @ [e']"
           "trace (state_of (epoch_loop ev a es w1)) = pre @ [EarlyStop v e']"
        by (elim conjE exE)
      have "e # es = (e # es1) @ e' # es2 \<and> e' mod val_freq a = 0
          \<and> trained (trace (state_of (epoch_loop ev a es w1))) = trained (trace w) @ (e # es1) @ [e']
          \<and> trace (state_of (epoch_loop ev a es w1)) = pre @ [EarlyStop v e']"
        using s t1 by simp
      then have "\<exists>es1 e' es2 pre v. e # es = es1 @ e' # es2 \<and> e' mod val_freq a = 0
          \<and> trained (trace (state_of (epoch_loop ev a es w1))) = trained (trace w) @ es1 @ [e']
          \<and> trace (state_of (epoch_loop ev a es w1)) = pre @ [EarlyStop v e']"
        by (intro exI)
      with r show ?thesis unfolding lp by (intro conjI)
    qed
  qed
qed

lemma epoch_loop_complete:
  assumes "\<not> early_stop (stopper w)"
    and "epoch_loop ev a es w = Returns r w'"
    and "\<not> early_stop (stopper w')"
  shows "trained (trace w') = trained (trace w) @ es"
  using assms
proof (induction es arbitrary: w)
  case Nil
  then show ?case by simp
next
  case (Cons e es)
  show ?case
  proof (cases "epoch_body ev a e w")
    case (Raises err w1)
    with Cons.prems(2) show ?thesis by simp
  next
    case (Returns c w1)
    with epoch_body_trained [of ev a e w] have t1: "trained (trace w1) = trained (trace w) @ [e]"
      by simp
    show ?thesis
    proof (cases c)
      case Break
      with Returns have b: "epoch_body ev a e w = Returns Break w1" by simp
      with Cons.prems(2) have "w' = w1" by simp
      with epoch_body_break [OF b] Cons.prems(3) show ?thesis by simp
    next
      case Continue
      with Returns have c: "epoch_body ev a e w = Returns Continue w1" by simp
      from epoch_body_no_break [OF Cons.prems(1), of ev a e w1] c
      have s1: "\<not> early_stop (stopper w1)" by blast
      from c Cons.prems(2) have "epoch_loop ev a es w1 = Returns r w'" by simp
      from Cons.IH [OF s1 this Cons.prems(3)] t1 show ?thesis by simp
    qed
  qed
qed

lemma upto_split_at:
  assumes "es1 @ e # es2 = [s..m]"
  shows "es1 @ [e] = [s..e] \<and> s \<le> e \<and> e \<le> m"
proof -
  have "e \<in> set [s..m]" by (simp flip: assms)
  then have b: "s \<le> e" "e \<le> m" by simp_all
  then have sp: "[s..m] = [s..e - 1] @ e # [e + 1..m]" by (rule upto_split3)
  have "distinct (es1 @ e # es2)" by (simp add: assms)
  then have n1: "e \<notin> set es1" and n2: "e \<notin> set es2" by simp_all
  from assms sp have "es1 @ e # es2 = [s..e - 1] @ e # [e + 1..m]" by simp
  with append_Cons_eq_iff [OF n1 n2, of "[s..e - 1]" "[e + 1..m]"] have "es1 = [s..e - 1]" by simp
  with b show ?thesis by (simp add: upto_rec2)
qed

lemma finish_frame:
  "stopper (state_of (finish ev a w)) = stopper w
   \<and> trained (trace (state_of (finish ev a w))) = trained (trace w)"
  by (simp add: finish_def Let_def save_checkpoint_def trained_append split: outcome.splits)

lemma finish_returns:
  assumes "print_freq a \<noteq> 0 \<or> test_loader ev = []"
  shows "finish ev a w =
     Returns (os_path_join (log_dir a) ''ckpt_epoch_last.pth'')
       (w\<lparr>trace := trace w @ [Evaluate TestLoader, Save (EpochName ''last'') True],
          disk := (disk w)(os_path_join (log_dir a) ''ckpt_epoch_last.pth'' \<mapsto>
             CheckpointFile (ckpt_state a (EpochName ''last'') (net w)))\<rparr>)"
proof -
  let ?w1 = "w\<lparr>trace := trace w @ [Evaluate TestLoader]\<rparr>"
  from assms have "returns (evaluate_one_epoch ev (test_loader ev) a (net ?w1) [])"
    by (simp only: evaluate_one_epoch_returns_iff)
  then obtain r u where "evaluate_one_epoch ev (test_loader ev) a (net ?w1) [] = Returns r u"
    by (cases "evaluate_one_epoch ev (test_loader ev) a (net ?w1) []") simp_all
  then show ?thesis
    by (simp add: finish_def Let_def save_checkpoint_def ckpt_path_def ckpt_state_def)
qed

lemma initial_world_fields:
  "\<not> early_stop (stopper (initial_world d t))" "trace (initial_world d t) = []"
  "net (initial_world d t) = t" "disk (initial_world d t) = d"
  by (simp_all add: initial_world_def EarlyStopping_def)

text \<open>The shape of every run of \<^verbatim>\<open>main\<close>: it stops before the loop, in the loop, or in the work after it.\<close>

lemma main_cases:
  "(\<exists>err st. main ev a0 t0 d0 = Raises err (fst st, initial_world d0 (snd st)))
   \<or> (\<exists>r a t. resume d0 (a0, t0) = Returns r (a, t) \<and> optimizer a0 = ''adamW'' \<and>
        (case epoch_loop ev a [start_epoch a..max_epoch a] (initial_world d0 t) of
           Raises err w \<Rightarrow> main ev a0 t0 d0 = Raises err (a, w)
         | Returns u w \<Rightarrow>
             (case finish ev a w of
                Raises err w' \<Rightarrow> main ev a0 t0 d0 = Raises err (a, w')
              | Returns p w' \<Rightarrow> main ev a0 t0 d0 = Returns p (a, w'))))"
proof (cases "optimizer a0 = ''adamW''")
  case False
  then have "main ev a0 t0 d0 = Raises NotImplementedError (fst (a0, t0), initial_world d0 (snd (a0, t0)))"
    by (simp add: main_def)
  then show ?thesis by blast
next
  case True
  show ?thesis
  proof (cases "resume d0 (a0, t0)")
    case (Raises err st)
    with True have "main ev a0 t0 d0 = Raises err (fst st, initial_world d0 (snd st))"
      by (simp add: main_def)
    then show ?thesis by blast
  next
    case (Returns r st)
    obtain a t where st: "st = (a, t)" by (cases st)
    have "case epoch_loop ev a [start_epoch a..max_epoch a] (initial_world d0 t) of
           Raises err w \<Rightarrow> main ev a0 t0 d0 = Raises err (a, w)
         | Returns u w \<Rightarrow>
             (case finish ev a w of
                Raises err w' \<Rightarrow> main ev a0 t0 d0 = Raises err (a, w')
              | Returns p w' \<Rightarrow> main ev a0 t0 d0 = Returns p (a, w'))"
      using True Returns st by (simp add: main_def Let_def split: outcome.splits)
    with True Returns st show ?thesis by blast
  qed
qed

lemma main_after_resume:
  assumes "optimizer a0 = ''adamW''" and "resume d0 (a0, t0) = Returns r (a, t)"
  shows "fst (state_of (main ev a0 t0 d0)) = a
       \<and> stopper (snd (state_of (main ev a0 t0 d0)))
           = stopper (state_of (epoch_loop ev a [start_epoch a..max_epoch a] (initial_world d0 t)))
       \<and> trained (trace (snd (state_of (main ev a0 t0 d0))))
           = trained (trace (state_of (epoch_loop ev a [start_epoch a..max_epoch a] (initial_world d0 t))))"
proof (cases "epoch_loop ev a [start_epoch a..max_epoch a] (initial_world d0 t)")
  case (Raises err w1)
  with assms show ?thesis by (simp add: main_def)
next
  case (Returns u w1)
  with assms finish_frame [of ev a w1] show ?thesis
    by (cases "finish ev a w1") (simp_all add: main_def)
qed


lemmas run_defs = epoch_body_def train_eval_part_def
  validation_part_def train_one_epoch_def evaluate_one_epoch_def np_average_def
  es_call_def es_save_checkpoint_def save_checkpoint_def
  env0_def default_opt_def opt_stop_def Let_def






text \<open>
  Claim C2. When the state \<^verbatim>\<open>main\<close> leaves behind has the early-stopping flag set, then
  the flag was set by the call at a validation epoch \<open>e\<close> on rank 0, the epochs trained are
  exactly those from \<^verbatim>\<open>start_epoch\<close> to \<open>e\<close>, and after that call the run made only the
  final evaluation on the test loader and the save of \<^verbatim>\<open>ckpt_epoch_last.pth\<close>; \<^verbatim>\<open>main\<close>
  returned the path of that file, which holds the final network state.
\<close>

theorem early_stop_ends_training:
  assumes "state_of (main ev a0 t0 d0) = (a, w)" and "early_stop (stopper w)"
  shows "main ev a0 t0 d0 = Returns (os_path_join (log_dir a) ''ckpt_epoch_last.pth'') (a, w)
       \<and> rank ev = 0 \<and> val_freq a \<noteq> 0
       \<and> (\<exists>e v pre. start_epoch a \<le> e \<and> e \<le> max_epoch a \<and> e mod val_freq a = 0
             \<and> trained (trace w) = [start_epoch a..e]
             \<and> trace w = pre @ [EarlyStop v e, Evaluate TestLoader, Save (EpochName ''last'') True])
       \<and> disk w (os_path_join (log_dir a) ''ckpt_epoch_last.pth'')
           = Some (CheckpointFile (ckpt_state a (EpochName ''last'') (net w)))"
proof -
  from main_cases [of ev a0 t0 d0]
  show ?thesis
  proof (elim disjE exE conjE)
    fix err st
    assume "main ev a0 t0 d0 = Raises err (fst st, initial_world d0 (snd st))"
    with assms have "early_stop (stopper (initial_world d0 (snd st)))" by auto
    with initial_world_fields(1) show ?thesis by blast
  next
    fix r a' t
    assume c: "case epoch_loop ev a' [start_epoch a'..max_epoch a'] (initial_world d0 t) of
           Raises err w \<Rightarrow> main ev a0 t0 d0 = Raises err (a', w)
         | Returns u w \<Rightarrow>
             (case finish ev a' w of
                Raises err w' \<Rightarrow> main ev a0 t0 d0 = Raises err (a', w')
              | Returns p w' \<Rightarrow> main ev a0 t0 d0 = Returns p (a', w'))"
    let ?l = "epoch_loop ev a' [start_epoch a'..max_epoch a'] (initial_world d0 t)"
    let ?w1 = "state_of ?l"
    have sw: "a' = a \<and> stopper w = stopper ?w1"
    proof (cases ?l)
      case (Raises err w1)
      with c assms(1) show ?thesis by simp
    next
      case (Returns u w1)
      with c assms(1) finish_frame [of ev a' w1] show ?thesis
        by (cases "finish ev a' w1") auto
    qed
    then have a: "a' = a" and es: "early_stop (stopper ?w1)" using assms(2) by simp_all
    from epoch_loop_stopped [OF initial_world_fields(1) es]
    obtain es1 e es2 pre v where
      r: "returns ?l" "rank ev = 0" "val_freq a' \<noteq> 0" "print_freq a' \<noteq> 0 \<or> test_loader ev = []"
      and s: "[start_epoch a'..max_epoch a'] = es1 @ e # es2" "e mod val_freq a' = 0"
        "trained (trace ?w1) = trained (trace (initial_world d0 t)) @ es1 @ [e]"
        "trace ?w1 = pre @ [EarlyStop v e]"
      by (elim conjE exE)
    from r(1) obtain u w1 where l: "?l = Returns u w1" by (cases ?l) simp_all
    then have w1: "?w1 = w1" by simp
    from upto_split_at [OF s(1) [symmetric]]
    have sp: "es1 @ [e] = [start_epoch a'..e]" "start_epoch a' \<le> e" "e \<le> max_epoch a'"
      by simp_all
    let ?p = "os_path_join (log_dir a') ''ckpt_epoch_last.pth''"
    let ?w = "w1\<lparr>trace := trace w1 @ [Evaluate TestLoader, Save (EpochName ''last'') True],
          disk := (disk w1)(?p \<mapsto> CheckpointFile (ckpt_state a' (EpochName ''last'') (net w1)))\<rparr>"
    from finish_returns [OF r(4), of w1] have f: "finish ev a' w1 = Returns ?p ?w" .
    from c l f have m: "main ev a0 t0 d0 = Returns ?p (a', ?w)" by simp
    have "(a', ?w) = (a, w)" using assms(1) unfolding m by (simp only: state_of.simps)
    then have "?w = w" by blast
    then have w: "w = ?w" by (rule sym)
    have tr: "trace w = pre @ [EarlyStop v e, Evaluate TestLoader, Save (EpochName ''last'') True]"
      using s(4) w1 w by simp
    have td: "trained (trace w) = [start_epoch a'..e]"
      using s(3) w1 w sp(1) by (simp add: trained_append initial_world_fields)
    have dk: "disk w ?p = Some (CheckpointFile (ckpt_state a' (EpochName ''last'') (net w)))"
      using w by simp
    have "\<exists>e v pre. start_epoch a' \<le> e \<and> e \<le> max_epoch a' \<and> e mod val_freq a' = 0
             \<and> trained (trace w) = [start_epoch a'..e]
             \<and> trace w = pre @ [EarlyStop v e, Evaluate TestLoader, Save (EpochName ''last'') True]"
      using sp(2,3) s(2) td tr by (intro exI [of _ e] exI [of _ v] exI [of _ pre]) simp
    with m w r(2,3) dk show ?thesis unfolding a by (intro conjI) simp_all
  qed
qed

lemma rising_step:
  assumes "rising c w"
  shows "if c + 1 < 20
         then \<exists>w'. epoch_body env0 opt_stop e w = Returns Continue w' \<and> rising (c + 1) w'
         else \<exists>w'. epoch_body env0 opt_stop e w = Returns Break w' \<and> early_stop (stopper w')"
  using assms by (auto simp: rising_def run_defs)

lemma rising_first:
  "\<exists>w'. epoch_body env0 opt_stop 1 (initial_world Map.empty trainer0) = Returns Continue w' \<and> rising 0 w'"
  by (simp add: rising_def run_defs initial_world_def EarlyStopping_def trainer0_def)

lemma rising_loop:
  "rising c w \<Longrightarrow> c < 20 \<Longrightarrow> 20 \<le> c + int (length es) \<Longrightarrow>
   early_stop (stopper (state_of (epoch_loop env0 opt_stop es w)))"
proof (induction es arbitrary: c w)
  case Nil
  then show ?case by simp
next
  case (Cons e es)
  show ?case
  proof (cases "c + 1 < 20")
    case True
    with rising_step [OF Cons.prems(1), of e] obtain w' where
      b: "epoch_body env0 opt_stop e w = Returns Continue w'" and r: "rising (c + 1) w'" by auto
    from Cons.prems(3) have "20 \<le> c + 1 + int (length es)" by simp
    from Cons.IH [OF r True this] b show ?thesis by simp
  next
    case False
    with rising_step [OF Cons.prems(1), of e] obtain w' where
      "epoch_body env0 opt_stop e w = Returns Break w'" "early_stop (stopper w')" by auto
    then show ?thesis by simp
  qed
qed

lemma stopping_run:
  "early_stop (stopper (snd (state_of (main env0 opt_stop trainer0 Map.empty))))"
proof -
  have o: "optimizer opt_stop = ''adamW''" by (simp add: opt_stop_def default_opt_def)
  have r: "resume Map.empty (opt_stop, trainer0) = Returns () (opt_stop, trainer0)"
    by (simp add: resume_def opt_stop_def default_opt_def)
  have u: "[start_epoch opt_stop..max_epoch opt_stop] = 1 # [2..30]"
    by (simp add: opt_stop_def default_opt_def upto_rec1)
  have n: "length [2..30::int] = 29" by simp
  from rising_first obtain w' where
    b: "epoch_body env0 opt_stop 1 (initial_world Map.empty trainer0) = Returns Continue w'"
    and w': "rising 0 w'" by blast
  from rising_loop [OF w', of "[2..30]"] n
  have "early_stop (stopper (state_of (epoch_loop env0 opt_stop [2..30] w')))" by simp
  with b u have "early_stop (stopper (state_of (epoch_loop env0 opt_stop
      [start_epoch opt_stop..max_epoch opt_stop] (initial_world Map.empty trainer0))))" by simp
  with main_after_resume [OF o r, of env0] show ?thesis by simp
qed

theorem early_stop_ends_training_witness:
  "main env0 opt_stop trainer0 Map.empty
     = Returns (os_path_join ''log'' ''ckpt_epoch_last.pth'') (state_of (main env0 opt_stop trainer0 Map.empty))
   \<and> (\<exists>e v pre. 1 \<le> e \<and> e \<le> 30
         \<and> trained (trace (snd (state_of (main env0 opt_stop trainer0 Map.empty)))) = [1..e]
         \<and> trace (snd (state_of (main env0 opt_stop trainer0 Map.empty)))
             = pre @ [EarlyStop v e, Evaluate TestLoader, Save (EpochName ''last'') True])"
proof -
  have o: "optimizer opt_stop = ''adamW''" by (simp add: opt_stop_def default_opt_def)
  have r: "resume Map.empty (opt_stop, trainer0) = Returns () (opt_stop, trainer0)"
    by (simp add: resume_def opt_stop_def default_opt_def)
  from main_after_resume [OF o r, of env0]
  have a: "fst (state_of (main env0 opt_stop trainer0 Map.empty)) = opt_stop" by simp
  have st: "state_of (main env0 opt_stop trainer0 Map.empty)
     = (opt_stop, snd (state_of (main env0 opt_stop trainer0 Map.empty)))"
    using a by (metis prod.collapse)
  from early_stop_ends_training [OF st stopping_run]
  show ?thesis unfolding st [symmetric]
    by (simp add: opt_stop_def default_opt_def)
qed

subsection \<open>Saving and loading a checkpoint\<close>

lemma ckpt_path_nonempty: "ckpt_path a ep \<noteq> []"
  by (simp add: ckpt_path_def os_path_join_def)

lemma save_checkpoint_written:
  assumes "save_cur \<or> (save_freq a \<noteq> 0 \<and> e mod save_freq a = 0)"
  shows "state_of (save_checkpoint a (EpochNum e) t save_cur d) (ckpt_path a (EpochNum e))
           = Some (CheckpointFile (ckpt_state a (EpochNum e) t))"
  using assms by (auto simp: save_checkpoint_def)

lemma main_complete:
  assumes "optimizer a0 = ''adamW''" and "resume d0 (a0, t0) = Returns r (a, t)"
    and "main ev a0 t0 d0 = Returns p st" and "\<not> early_stop (stopper (snd st))"
  shows "trained (trace (snd st)) = [start_epoch a..max_epoch a]"
proof (cases "epoch_loop ev a [start_epoch a..max_epoch a] (initial_world d0 t)")
  case (Raises err w1)
  with assms(1-3) show ?thesis by (simp add: main_def)
next
  case (Returns u w1)
  show ?thesis
  proof (cases "finish ev a w1")
    case (Raises err w2)
    with Returns assms(1-3) show ?thesis by (simp add: main_def)
  next
    case f: (Returns q w2)
    with Returns assms(1-3) have st: "st = (a, w2)" by (simp add: main_def)
    from finish_frame [of ev a w1] f
    have s: "stopper w2 = stopper w1" and tr: "trained (trace w2) = trained (trace w1)" by simp_all
    from assms(4) st s have "\<not> early_stop (stopper w1)" by simp
    from epoch_loop_complete [OF initial_world_fields(1) Returns this]
    have "trained (trace w1) = [start_epoch a..max_epoch a]" by (simp add: initial_world_fields)
    with tr st show ?thesis by simp
  qed
qed

text \<open>
  Claim C3. When \<^verbatim>\<open>save_checkpoint\<close> writes the checkpoint of a numbered epoch \<open>e\<close>, the file
  holds the three state dicts and the epoch; \<^verbatim>\<open>load_checkpoint\<close> on that file sets
  \<^verbatim>\<open>args.start_epoch\<close> to \<open>e + 1\<close> and restores exactly the saved model, optimizer and
  scheduler states, whatever they were before; so does the resume step of \<^verbatim>\<open>main\<close>. A run of
  \<^verbatim>\<open>main\<close> resumed from that file continues at the epoch after the saved one: when
  \<open>e + 1\<close> is at most \<^verbatim>\<open>max_epoch\<close> it trains at least one epoch and the first epoch it
  trains is \<open>e + 1\<close>; the epochs it trains are an initial part of \<open>e + 1\<close> to
  \<^verbatim>\<open>max_epoch\<close>, and all of them when it returns without the early-stopping flag set.
\<close>

theorem checkpoint_round_trip:
  assumes "save_cur \<or> (save_freq a \<noteq> 0 \<and> e mod save_freq a = 0)"
    and "d' = state_of (save_checkpoint a (EpochNum e) t save_cur d)"
    and "checkpoint_path a' = Some (ckpt_path a (EpochNum e))"
  shows "d' (ckpt_path a (EpochNum e)) =
           Some (CheckpointFile \<lparr>ck_config = a, ck_save_path = ckpt_path a (EpochNum e),
             ck_model = model_sd t, ck_optimizer = optimizer_sd t,
             ck_scheduler = scheduler_sd t, ck_epoch = EpochNum e\<rparr>)
       \<and> load_checkpoint d' (a', t') = Returns () (a'\<lparr>start_epoch := e + 1\<rparr>, t)
       \<and> resume d' (a', t') = Returns () (a'\<lparr>start_epoch := e + 1\<rparr>, t)
       \<and> (optimizer a' = ''adamW'' \<longrightarrow>
             start_epoch (fst (state_of (main ev a' t' d'))) = e + 1
             \<and> (\<exists>k. (e + 1 \<le> max_epoch a' \<longrightarrow> 0 < k)
                    \<and> trained (trace (snd (state_of (main ev a' t' d'))))
                        = take k [e + 1..max_epoch a'])
             \<and> (e + 1 \<le> max_epoch a' \<longrightarrow>
                    trained (trace (snd (state_of (main ev a' t' d')))) \<noteq> []
                    \<and> hd (trained (trace (snd (state_of (main ev a' t' d'))))) = e + 1)
             \<and> (returns (main ev a' t' d')
                    \<and> \<not> early_stop (stopper (snd (state_of (main ev a' t' d')))) \<longrightarrow>
                    trained (trace (snd (state_of (main ev a' t' d')))) = [e + 1..max_epoch a']))"
proof -
  from save_checkpoint_written [OF assms(1), of t d] assms(2)
  have w: "d' (ckpt_path a (EpochNum e)) = Some (CheckpointFile (ckpt_state a (EpochNum e) t))"
    by simp
  then have f: "d' (ckpt_path a (EpochNum e)) =
           Some (CheckpointFile \<lparr>ck_config = a, ck_save_path = ckpt_path a (EpochNum e),
             ck_model = model_sd t, ck_optimizer = optimizer_sd t,
             ck_scheduler = scheduler_sd t, ck_epoch = EpochNum e\<rparr>)"
    by (simp add: ckpt_state_def)
  have l: "load_checkpoint d' (a', t') = Returns () (a'\<lparr>start_epoch := e + 1\<rparr>, t)"
    using w assms(3) by (simp add: load_checkpoint_def ckpt_state_def)
  have r: "resume d' (a', t') = Returns () (a'\<lparr>start_epoch := e + 1\<rparr>, t)"
    using w assms(3) l by (simp add: resume_def ckpt_path_nonempty)
  let ?tr = "trained (trace (snd (state_of (main ev a' t' d'))))"
  have m: "start_epoch (fst (state_of (main ev a' t' d'))) = e + 1
             \<and> (\<exists>k. (e + 1 \<le> max_epoch a' \<longrightarrow> 0 < k) \<and> ?tr = take k [e + 1..max_epoch a'])
             \<and> (e + 1 \<le> max_epoch a' \<longrightarrow> ?tr \<noteq> [] \<and> hd ?tr = e + 1)
             \<and> (returns (main ev a' t' d')
                    \<and> \<not> early_stop (stopper (snd (state_of (main ev a' t' d')))) \<longrightarrow>
                    ?tr = [e + 1..max_epoch a'])"
    if o: "optimizer a' = ''adamW''"
  proof -
    let ?a = "a'\<lparr>start_epoch := e + 1\<rparr>"
    from main_after_resume [OF o r, of ev]
    have sa: "start_epoch (fst (state_of (main ev a' t' d'))) = e + 1"
      and te: "?tr = trained (trace (state_of (epoch_loop ev ?a [start_epoch ?a..max_epoch ?a]
        (initial_world d' t))))" by simp_all
    from epoch_loop_prefix [of "[start_epoch ?a..max_epoch ?a]" ev ?a "initial_world d' t"]
    obtain k where k: "[e + 1..max_epoch a'] \<noteq> [] \<longrightarrow> 0 < k"
      and tk: "trained (trace (state_of (epoch_loop ev ?a [start_epoch ?a..max_epoch ?a]
        (initial_world d' t)))) = take k [e + 1..max_epoch a']"
      by (auto simp: initial_world_fields)
    from te tk have tr: "?tr = take k [e + 1..max_epoch a']" by simp
    have pos: "0 < k" if le: "e + 1 \<le> max_epoch a'"
    proof -
      from le have "[e + 1..max_epoch a'] \<noteq> []" by simp
      with k show ?thesis by simp
    qed
    have hd: "?tr \<noteq> [] \<and> hd ?tr = e + 1" if le: "e + 1 \<le> max_epoch a'"
    proof -
      from le have u: "[e + 1..max_epoch a'] = (e + 1) # [e + 1 + 1..max_epoch a']"
        by (simp add: upto_rec1)
      from pos [OF le] obtain j where "k = Suc j" by (cases k) simp_all
      with tr u show ?thesis by simp
    qed
    have full: "?tr = [e + 1..max_epoch a']"
      if h: "returns (main ev a' t' d')
               \<and> \<not> early_stop (stopper (snd (state_of (main ev a' t' d'))))"
    proof -
      from h obtain p st where ms: "main ev a' t' d' = Returns p st"
        by (cases "main ev a' t' d'") simp_all
      with h have "\<not> early_stop (stopper (snd st))" by simp
      from main_complete [OF o r ms this] ms show ?thesis by simp
    qed
    from sa tr pos hd full show ?thesis by blast
  qed
  from f l r m show ?thesis by blast
qed

theorem checkpoint_round_trip_witness:
  "load_checkpoint (state_of (save_checkpoint default_opt (EpochNum 10) trainer_example False Map.empty))
      (default_opt\<lparr>checkpoint_path := Some (ckpt_path default_opt (EpochNum 10))\<rparr>, trainer0)
     = Returns () (default_opt\<lparr>checkpoint_path := Some (ckpt_path default_opt (EpochNum 10)),
                     start_epoch := 11\<rparr>, trainer_example)
   \<and> start_epoch (fst (state_of (main env0
        (default_opt\<lparr>checkpoint_path := Some (ckpt_path default_opt (EpochNum 10))\<rparr>) trainer0
        (state_of (save_checkpoint default_opt (EpochNum 10) trainer_example False Map.empty))))) = 11
   \<and> trained (trace (snd (state_of (main env0
        (default_opt\<lparr>checkpoint_path := Some (ckpt_path default_opt (EpochNum 10))\<rparr>) trainer0
        (state_of (save_checkpoint default_opt (EpochNum 10) trainer_example False Map.empty)))))) \<noteq> []
   \<and> hd (trained (trace (snd (state_of (main env0
        (default_opt\<lparr>checkpoint_path := Some (ckpt_path default_opt (EpochNum 10))\<rparr>) trainer0
        (state_of (save_checkpoint default_opt (EpochNum 10) trainer_example False Map.empty))))))) = 11"
proof -
  have c: "False \<or> (save_freq default_opt \<noteq> 0 \<and> 10 mod save_freq default_opt = 0)"
    by (simp add: default_opt_def)
  have p: "checkpoint_path (default_opt\<lparr>checkpoint_path := Some (ckpt_path default_opt (EpochNum 10))\<rparr>)
     = Some (ckpt_path default_opt (EpochNum 10))" by simp
  have o: "optimizer (default_opt\<lparr>checkpoint_path := Some (ckpt_path default_opt (EpochNum 10))\<rparr>)
     = ''adamW''" by (simp add: default_opt_def)
  have le: "(10::int) + 1 \<le> max_epoch (default_opt\<lparr>checkpoint_path := Some (ckpt_path default_opt (EpochNum 10))\<rparr>)"
    by (simp add: default_opt_def)
  from checkpoint_round_trip [OF c refl p, of trainer_example Map.empty trainer0 env0] o le
  show ?thesis by simp
qed

end
